theory Spec2Isabelle
  imports Complex_Main
begin

section \<open>Python values, exceptions and the ROS interface\<close>

text \<open>
  The node \<^verbatim>\<open>CarlaSpawnObjects\<close> of \<^verbatim>\<open>carla_spawn_objects.py\<close> works on
  values decoded by \<^verbatim>\<open>json.loads\<close> and on ROS parameters. Both are Python values
  of the same few shapes. A dict is an association list with distinct keys, in insertion
  order (the order \<^verbatim>\<open>items()\<close> yields). A Python float is a real number, one of the two
  infinities or not a number (\<^verbatim>\<open>json.loads\<close> and \<^verbatim>\<open>float\<close> yield all of them); the node
  never computes with floats, it hands them to \<^verbatim>\<open>math.radians\<close> and
  \<^verbatim>\<open>quaternion_from_euler\<close>. Strings are Python 3 strings.
\<close>

datatype pyfloat = Finite real | PosInf | NegInf | NaN

datatype pyval =
    VNone
  | VBool bool
  | VInt int
  | VFloat pyfloat
  | VStr string
  | VList "pyval list"
  | VDict "(string \<times> pyval) list"

text \<open>
  Every exception the node can meet. \<open>OtherException\<close> stands for whatever else a
  service proxy raises. The last five are the \<^verbatim>\<open>Exception(...)\<close> objects that the
  node builds itself: \<open>BackendError\<close> on an answer with the identifier -1 in
  \<^verbatim>\<open>setup_sensors\<close>, \<open>ActorListMissing\<close> on line 96, and the three that wrap another
  exception; their message is kept as structure: the wrapped exception and, where it is
  formatted in, the vehicle's id.
\<close>

datatype exn =
    KeyError string
  | TypeError
  | AttributeError
  | ValueError
  | OverflowError
  | NameError
  | UnboundLocalError
  | RuntimeError
  | ServiceException string
  | OtherException string
  | BackendError string
  | ActorListMissing
  | GlobalSensorsFailed exn
  | VehiclesFailed exn
  | VehicleSensorsFailed pyval exn

type_synonym quat = "pyfloat \<times> pyfloat \<times> pyfloat \<times> pyfloat"

record pose =
  pos_x :: pyval
  pos_y :: pyval
  pos_z :: pyval
  orientation :: quat

record spawn_request =
  req_type :: pyval
  req_id :: pyval
  attach_to :: pyval
  transform :: pose
  random_pose :: bool
  attributes :: "(string \<times> string) list"

record spawn_response =
  resp_id :: int
  error_string :: string

text \<open>
  What the node writes to the ROS log, one constructor for each \<^verbatim>\<open>rospy.log*\<close> call
  of the source, with the values formatted into the message.
\<close>

datatype logmsg =
    IgnoredType pyval
  | CarlaIdUnknown pyval
  | SpawnPointFromParams
  | ParamUnusable pyval exn
  | SpawnPointFromConfig
  | ConfigSpawnPointMissing pyval exn
  | SpawnPointRandom
  | NoSensorsField
  | SensorMissingAttribute string exn
  | SensorNotSpawned string exn
  | DestroyFailed string

datatype level = Info | Warn | Err

datatype event =
    SpawnObject spawn_request
  | DestroyObject int
  | GetActor pyval int
  | Log level logmsg

text \<open>
  The three services, the parameter server, and the library functions the node calls
  but does not define. A service takes the state of the simulator \<open>'b\<close> and returns
  its answer, or the exception the proxy raises, with the new state.
  \<open>py_float\<close> is \<^verbatim>\<open>float(s)\<close> (\<open>None\<close>: \<^verbatim>\<open>ValueError\<close>), \<open>py_repr\<close> is
  \<^verbatim>\<open>str(v)\<close> for a value that is not a string, and \<open>quaternion_from_euler_deg\<close> is
  \<^verbatim>\<open>quaternion_from_euler(radians(roll), radians(pitch), radians(yaw))\<close> where this
  returns (see \<open>create_spawn_point\<close> for where it raises).
\<close>

record 'b env =
  spawn_object_service :: "spawn_request \<Rightarrow> 'b \<Rightarrow> (exn + spawn_response) \<times> 'b"
  destroy_object_service :: "int \<Rightarrow> 'b \<Rightarrow> (exn + bool) \<times> 'b"
  get_actor_service :: "pyval \<Rightarrow> int \<Rightarrow> 'b \<Rightarrow> (exn + int) \<times> 'b"
  get_param :: "string \<Rightarrow> pyval option"
  py_float :: "string \<Rightarrow> pyfloat option"
  py_repr :: "pyval \<Rightarrow> string"
  quaternion_from_euler_deg :: "pyfloat \<Rightarrow> pyfloat \<Rightarrow> pyfloat \<Rightarrow> quat"

text \<open>
  The node object: the two parameters read by \<^verbatim>\<open>__init__\<close>, the three lists of
  identifiers, the simulator behind the services, everything the node has sent or
  logged so far (oldest first), and the call sites of \<^verbatim>\<open>rospy.logwarn_once\<close> that have
  already logged. \<open>objects_definition_file\<close> is what reading the file gives:
  \<open>None\<close> when the path does not exist, \<open>Some (Inl e)\<close> when opening or decoding it
  raises \<open>e\<close>, \<open>Some (Inr j)\<close> when it decodes to \<open>j\<close>.
\<close>

record 'b node =
  objects_definition_file :: "(exn + pyval) option"
  spawn_sensors_only :: pyval
  players :: "int list"
  vehicles_sensors :: "int list list"
  global_sensors :: "int list"
  backend :: 'b
  trace :: "event list"
  logged_once :: "nat list"

section \<open>Python builtins\<close>

definition ebind :: "exn + 'a \<Rightarrow> ('a \<Rightarrow> exn + 'c) \<Rightarrow> exn + 'c" where
  "ebind m f = (case m of Inl e \<Rightarrow> Inl e | Inr x \<Rightarrow> f x)"

fun truthy :: "pyval \<Rightarrow> bool" where
  "truthy VNone = False"
| "truthy (VBool b) = b"
| "truthy (VInt i) = (i \<noteq> 0)"
| "truthy (VFloat f) = (f \<noteq> Finite 0)"
| "truthy (VStr s) = (s \<noteq> [])"
| "truthy (VList xs) = (xs \<noteq> [])"
| "truthy (VDict d) = (d \<noteq> [])"

definition is_True :: "pyval \<Rightarrow> bool" where
  "is_True v = (v = VBool True)"

text \<open>\<^verbatim>\<open>v == 0\<close>: true of the numbers zero and of \<^verbatim>\<open>False\<close>.\<close>

fun eq_zero :: "pyval \<Rightarrow> bool" where
  "eq_zero (VInt i) = (i = 0)"
| "eq_zero (VFloat f) = (f = Finite 0)"
| "eq_zero (VBool b) = (\<not> b)"
| "eq_zero _ = False"

text \<open>\<^verbatim>\<open>v[k]\<close> for a string \<open>k\<close>.\<close>

fun subscript :: "pyval \<Rightarrow> string \<Rightarrow> exn + pyval" where
  "subscript (VDict d) k = (case map_of d k of None \<Rightarrow> Inl (KeyError k) | Some v \<Rightarrow> Inr v)"
| "subscript _ k = Inl TypeError"

text \<open>\<^verbatim>\<open>k in v\<close> for a dict \<open>v\<close> (the only shape the node's callers pass).\<close>

fun has_key :: "pyval \<Rightarrow> string \<Rightarrow> exn + bool" where
  "has_key (VDict d) k = Inr (map_of d k \<noteq> None)"
| "has_key (VList xs) k = Inr (VStr k \<in> set xs)"
| "has_key _ k = Inl TypeError"

definition dict_remove :: "string \<Rightarrow> (string \<times> pyval) list \<Rightarrow> (string \<times> pyval) list" where
  "dict_remove k d = filter (\<lambda>kv. fst kv \<noteq> k) d"

text \<open>\<^verbatim>\<open>v.pop(k)\<close>: the value and the dict without the key.\<close>

fun pop :: "pyval \<Rightarrow> string \<Rightarrow> exn + (pyval \<times> pyval)" where
  "pop (VDict d) k =
     (case map_of d k of None \<Rightarrow> Inl (KeyError k) | Some v \<Rightarrow> Inr (v, VDict (dict_remove k d)))"
| "pop (VList xs) k = Inl TypeError"
| "pop _ k = Inl AttributeError"

text \<open>\<^verbatim>\<open>v.pop(k, default)\<close>.\<close>

fun pop_default :: "pyval \<Rightarrow> string \<Rightarrow> pyval \<Rightarrow> exn + (pyval \<times> pyval)" where
  "pop_default (VDict d) k dflt =
     (case map_of d k of None \<Rightarrow> Inr (dflt, VDict d) | Some v \<Rightarrow> Inr (v, VDict (dict_remove k d)))"
| "pop_default (VList xs) k dflt = Inl TypeError"
| "pop_default _ k dflt = Inl AttributeError"

text \<open>\<^verbatim>\<open>v[k] = x\<close> on a dict: a present key keeps its place, a new one goes last.\<close>

definition dict_set :: "(string \<times> pyval) list \<Rightarrow> string \<Rightarrow> pyval \<Rightarrow> (string \<times> pyval) list" where
  "dict_set d k x =
     (if map_of d k = None then d @ [(k, x)]
      else map (\<lambda>kv. if fst kv = k then (k, x) else kv) d)"

text \<open>\<^verbatim>\<open>for x in v\<close>: the elements of a list, the keys of a dict, the characters of a string.\<close>

fun iterate :: "pyval \<Rightarrow> exn + pyval list" where
  "iterate (VList xs) = Inr xs"
| "iterate (VDict d) = Inr (map (\<lambda>kv. VStr (fst kv)) d)"
| "iterate (VStr s) = Inr (map (\<lambda>c. VStr [c]) s)"
| "iterate _ = Inl TypeError"

fun items :: "pyval \<Rightarrow> (string \<times> pyval) list" where
  "items (VDict d) = d"
| "items _ = []"

definition str :: "'b env \<Rightarrow> pyval \<Rightarrow> string" where
  "str env v = (case v of VStr s \<Rightarrow> s | _ \<Rightarrow> py_repr env v)"

text \<open>
  The float that \<^verbatim>\<open>math.radians\<close> makes of its argument before it scales it. A float is
  taken as it is and a bool is 0 or 1. An int is converted, which raises
  \<^verbatim>\<open>OverflowError\<close> when the nearest float would be beyond the largest one, that is from
  \<open>2 ^ 1024 - 2 ^ 970\<close> on; below, the int stands for the float nearest to it. Any other
  value raises \<^verbatim>\<open>TypeError\<close>.
\<close>

fun number :: "pyval \<Rightarrow> exn + pyfloat" where
  "number (VInt i) =
     (if \<bar>i\<bar> < 2 ^ 1024 - 2 ^ 970 then Inr (Finite (of_int i)) else Inl OverflowError)"
| "number (VFloat f) = Inr f"
| "number (VBool b) = Inr (Finite (if b then 1 else 0))"
| "number _ = Inl TypeError"

fun infinite_float :: "pyfloat \<Rightarrow> bool" where
  "infinite_float PosInf = True"
| "infinite_float NegInf = True"
| "infinite_float _ = False"

fun split_acc :: "char \<Rightarrow> string \<Rightarrow> string \<Rightarrow> string list" where
  "split_acc sep acc [] = [rev acc]"
| "split_acc sep acc (c # cs) =
     (if c = sep then rev acc # split_acc sep [] cs else split_acc sep (c # acc) cs)"

text \<open>\<^verbatim>\<open>s.split(sep)\<close> for a separator of one character.\<close>

definition split :: "char \<Rightarrow> string \<Rightarrow> string list" where
  "split sep s = split_acc sep [] s"

fun starts_with :: "string \<Rightarrow> string \<Rightarrow> bool" where
  "starts_with [] s = True"
| "starts_with (a # p) [] = False"
| "starts_with (a # p) (b # s) = (a = b \<and> starts_with p s)"

text \<open>\<^verbatim>\<open>sub in s\<close> for two strings.\<close>

fun str_contains :: "string \<Rightarrow> string \<Rightarrow> bool" where
  "str_contains sub [] = (sub = [])"
| "str_contains sub (c # s) = (starts_with sub (c # s) \<or> str_contains sub s)"

section \<open>Logging and service calls\<close>

definition log :: "level \<Rightarrow> logmsg \<Rightarrow> 'b node \<Rightarrow> 'b node" where
  "log l m w = w\<lparr>trace := trace w @ [Log l m]\<rparr>"

text \<open>
  \<^verbatim>\<open>rospy.logwarn_once\<close> logs the first time its call site is reached and is silent
  there afterwards, for the life of the process. A call site is named by its line.
\<close>

definition logwarn_once :: "nat \<Rightarrow> logmsg \<Rightarrow> 'b node \<Rightarrow> 'b node" where
  "logwarn_once site m w =
     (if site \<in> set (logged_once w) then w
      else log Warn m (w\<lparr>logged_once := logged_once w @ [site]\<rparr>))"

definition call_spawn_object ::
  "'b env \<Rightarrow> spawn_request \<Rightarrow> 'b node \<Rightarrow> (exn + spawn_response) \<times> 'b node" where
  "call_spawn_object env req w =
     (case spawn_object_service env req (backend w) of
        (r, b) \<Rightarrow> (r, w\<lparr>backend := b, trace := trace w @ [SpawnObject req]\<rparr>))"

definition call_destroy_object :: "'b env \<Rightarrow> int \<Rightarrow> 'b node \<Rightarrow> (exn + bool) \<times> 'b node" where
  "call_destroy_object env actor_id w =
     (case destroy_object_service env actor_id (backend w) of
        (r, b) \<Rightarrow> (r, w\<lparr>backend := b, trace := trace w @ [DestroyObject actor_id]\<rparr>))"

definition call_get_actor :: "'b env \<Rightarrow> pyval \<Rightarrow> int \<Rightarrow> 'b node \<Rightarrow> (exn + int) \<times> 'b node" where
  "call_get_actor env role i w =
     (case get_actor_service env role i (backend w) of
        (r, b) \<Rightarrow> (r, w\<lparr>backend := b, trace := trace w @ [GetActor role i]\<rparr>))"

section \<open>\<^verbatim>\<open>create_spawn_point\<close> and \<^verbatim>\<open>check_spawn_point_param\<close>\<close>

text \<open>
  The position fields take whatever they are given. \<^verbatim>\<open>math.radians\<close> is applied to
  roll, pitch and yaw in this order and raises on a value that is not a number or is an
  int too large for a float; an infinite angle stays infinite, and then
  \<^verbatim>\<open>quaternion_from_euler\<close> raises \<^verbatim>\<open>ValueError\<close> (\<^verbatim>\<open>math.cos\<close> and \<^verbatim>\<open>math.sin\<close>
  have no value there).
\<close>

definition create_spawn_point ::
  "'b env \<Rightarrow> pyval \<Rightarrow> pyval \<Rightarrow> pyval \<Rightarrow> pyval \<Rightarrow> pyval \<Rightarrow> pyval \<Rightarrow> exn + pose" where
  "create_spawn_point env x y z roll pitch yaw =
     ebind (number roll) (\<lambda>r.
     ebind (number pitch) (\<lambda>p.
     ebind (number yaw) (\<lambda>yw.
       if infinite_float r \<or> infinite_float p \<or> infinite_float yw then Inl ValueError
       else Inr \<lparr>pos_x = x, pos_y = y, pos_z = z,
                 orientation = quaternion_from_euler_deg env r p yw\<rparr>)))"

text \<open>\<^verbatim>\<open>Pose()\<close>: a ROS 1 message is built with every number zero.\<close>

definition empty_pose :: pose where
  "empty_pose = \<lparr>pos_x = VFloat (Finite 0), pos_y = VFloat (Finite 0), pos_z = VFloat (Finite 0),
                 orientation = (Finite 0, Finite 0, Finite 0, Finite 0)\<rparr>"

definition to_float :: "'b env \<Rightarrow> string \<Rightarrow> exn + pyval" where
  "to_float env s = (case py_float env s of None \<Rightarrow> Inl ValueError | Some f \<Rightarrow> Inr (VFloat f))"

text \<open>
  A parameter that is not a string has no \<^verbatim>\<open>split\<close>. The six \<^verbatim>\<open>float\<close> calls are
  evaluated in order; the list has six elements when they are reached.
\<close>

fun check_spawn_point_param :: "'b env \<Rightarrow> pyval \<Rightarrow> exn + pose" where
  "check_spawn_point_param env (VStr s) =
     (case split (CHR '','') s of
        [c0, c1, c2, c3, c4, c5] \<Rightarrow>
          ebind (to_float env c0) (\<lambda>x.
          ebind (to_float env c1) (\<lambda>y.
          ebind (to_float env c2) (\<lambda>z.
          ebind (to_float env c3) (\<lambda>roll.
          ebind (to_float env c4) (\<lambda>pitch.
          ebind (to_float env c5) (\<lambda>yaw.
            create_spawn_point env x y z roll pitch yaw))))))
      | _ \<Rightarrow> Inl ValueError)"
| "check_spawn_point_param env _ = Inl AttributeError"

section \<open>\<^verbatim>\<open>setup_sensors\<close>\<close>

text \<open>
  The pose of a sensor, with the sensor's dict after \<^verbatim>\<open>spawn_point\<close> has been popped.
  An unattached sensor that is not a pseudo sensor must have a spawn point with x, y and
  z; any other sensor may leave the spawn point, or any of its six fields, out.
\<close>

definition sensor_transform ::
  "'b env \<Rightarrow> pyval \<Rightarrow> string \<Rightarrow> pyval \<Rightarrow> exn + (pose \<times> pyval)" where
  "sensor_transform env attached_vehicle_id sensor_type sensor_spec =
     (if eq_zero attached_vehicle_id \<and> \<not> str_contains ''pseudo'' sensor_type then
        ebind (pop sensor_spec ''spawn_point'') (\<lambda>(spawn_point, spec).
        ebind (pop spawn_point ''x'') (\<lambda>(x, sp1).
        ebind (pop sp1 ''y'') (\<lambda>(y, sp2).
        ebind (pop sp2 ''z'') (\<lambda>(z, sp3).
        ebind (pop_default sp3 ''roll'' (VFloat (Finite 0))) (\<lambda>(roll, sp4).
        ebind (pop_default sp4 ''pitch'' (VFloat (Finite 0))) (\<lambda>(pitch, sp5).
        ebind (pop_default sp5 ''yaw'' (VFloat (Finite 0))) (\<lambda>(yaw, sp6).
        ebind (create_spawn_point env x y z roll pitch yaw) (\<lambda>t. Inr (t, spec)))))))))
      else
        ebind (pop_default sensor_spec ''spawn_point'' (VInt 0)) (\<lambda>(spawn_point, spec).
        if eq_zero spawn_point then
          ebind (create_spawn_point env (VFloat (Finite 0)) (VFloat (Finite 0)) (VFloat (Finite 0)) (VFloat (Finite 0)) (VFloat (Finite 0)) (VFloat (Finite 0)))
            (\<lambda>t. Inr (t, spec))
        else
          ebind (pop_default spawn_point ''x'' (VFloat (Finite 0))) (\<lambda>(x, sp1).
          ebind (pop_default sp1 ''y'' (VFloat (Finite 0))) (\<lambda>(y, sp2).
          ebind (pop_default sp2 ''z'' (VFloat (Finite 0))) (\<lambda>(z, sp3).
          ebind (pop_default sp3 ''roll'' (VFloat (Finite 0))) (\<lambda>(roll, sp4).
          ebind (pop_default sp4 ''pitch'' (VFloat (Finite 0))) (\<lambda>(pitch, sp5).
          ebind (pop_default sp5 ''yaw'' (VFloat (Finite 0))) (\<lambda>(yaw, sp6).
          ebind (create_spawn_point env x y z roll pitch yaw) (\<lambda>t. Inr (t, spec))))))))))"

text \<open>
  The \<^verbatim>\<open>try\<close> block of the loop, for one sensor. Beside the identifier (or the
  exception) and the node it returns the two locals that outlive the block:
  \<open>sensor_names\<close> and \<open>sensor_name\<close>, which is \<open>None\<close> as long as no assignment has
  reached it. The message of the \<^verbatim>\<open>NameError\<close> reads \<^verbatim>\<open>sensor_spec['id']\<close> after
  the key has been popped, so building it raises first.
\<close>

definition spawn_sensor ::
  "'b env \<Rightarrow> pyval \<Rightarrow> pyval \<Rightarrow> string list \<Rightarrow> string option \<Rightarrow> 'b node
     \<Rightarrow> (exn + int) \<times> string list \<times> string option \<times> 'b node" where
  "spawn_sensor env attached_vehicle_id sensor_spec sensor_names sensor_name w =
     (case pop sensor_spec ''type'' of
        Inl e \<Rightarrow> (Inl e, sensor_names, sensor_name, w)
      | Inr (ty, spec1) \<Rightarrow>
     (case pop spec1 ''id'' of
        Inl e \<Rightarrow> (Inl e, sensor_names, sensor_name, w)
      | Inr (ident, spec2) \<Rightarrow>
        let sensor_type = str env ty;
            sensor_id = str env ident;
            name = sensor_type @ ''/'' @ sensor_id
        in
        if name \<in> set sensor_names then
          (case subscript spec2 ''id'' of
             Inl e \<Rightarrow> (Inl e, sensor_names, Some name, w)
           | Inr _ \<Rightarrow> (Inl NameError, sensor_names, Some name, w))
        else
          let names = sensor_names @ [name] in
          (case sensor_transform env attached_vehicle_id sensor_type spec2 of
             Inl e \<Rightarrow> (Inl e, names, Some name, w)
           | Inr (t, spec3) \<Rightarrow>
               let req = \<lparr>req_type = VStr sensor_type, req_id = VStr sensor_id,
                          attach_to = attached_vehicle_id, transform = t, random_pose = False,
                          attributes = map (\<lambda>kv. (fst kv, str env (snd kv))) (items spec3)\<rparr>
               in
               (case call_spawn_object env req w of
                  (Inl e, w') \<Rightarrow> (Inl e, names, Some name, w')
                | (Inr response, w') \<Rightarrow>
                    if resp_id response = - 1
                    then (Inl (BackendError (error_string response)), names, Some name, w')
                    else (Inr (resp_id response), names, Some name, w')))))"

fun is_KeyError :: "exn \<Rightarrow> bool" where
  "is_KeyError (KeyError k) = True"
| "is_KeyError _ = False"

text \<open>
  The loop over the sensors. Both handlers format \<open>sensor_name\<close> into their message:
  while it is unbound the handler itself raises \<^verbatim>\<open>UnboundLocalError\<close>, which leaves
  \<^verbatim>\<open>setup_sensors\<close>; afterwards it holds the name of the last sensor that had one.
\<close>

fun sensors_loop ::
  "'b env \<Rightarrow> pyval \<Rightarrow> pyval list \<Rightarrow> int list \<Rightarrow> string list \<Rightarrow> string option \<Rightarrow> 'b node
     \<Rightarrow> (exn + int list) \<times> 'b node" where
  "sensors_loop env attached_vehicle_id [] actors sensor_names sensor_name w = (Inr actors, w)"
| "sensors_loop env attached_vehicle_id (sensor_spec # rest) actors sensor_names sensor_name w =
     (case spawn_sensor env attached_vehicle_id sensor_spec sensor_names sensor_name w of
        (Inl e, names, name, w') \<Rightarrow>
          (case name of
             None \<Rightarrow> (Inl UnboundLocalError, w')
           | Some n \<Rightarrow>
               sensors_loop env attached_vehicle_id rest actors names name
                 (log Err (if is_KeyError e then SensorMissingAttribute n e
                           else SensorNotSpawned n e) w'))
      | (Inr actor_id, names, name, w') \<Rightarrow>
          sensors_loop env attached_vehicle_id rest (actors @ [actor_id]) names name w')"

definition setup_sensors ::
  "'b env \<Rightarrow> pyval \<Rightarrow> pyval \<Rightarrow> 'b node \<Rightarrow> (exn + int list) \<times> 'b node" where
  "setup_sensors env sensors attached_vehicle_id w =
     (case iterate sensors of
        Inl e \<Rightarrow> (Inl e, w)
      | Inr specs \<Rightarrow> sensors_loop env attached_vehicle_id specs [] [] None w)"

section \<open>\<^verbatim>\<open>setup_vehicles\<close>\<close>

text \<open>\<^verbatim>\<open>rospy.get_param(name, None)\<close>.\<close>

definition get_param_or_None :: "'b env \<Rightarrow> string \<Rightarrow> pyval" where
  "get_param_or_None env name = (case get_param env name of None \<Rightarrow> VNone | Some v \<Rightarrow> v)"

text \<open>
  The spawn point of the launch file: \<open>None\<close> stands for the Python \<^verbatim>\<open>None\<close> that
  \<open>spawn_point\<close> keeps when the parameter is absent or cannot be used; then
  \<open>spawn_param_used\<close> is still false.
\<close>

definition spawn_point_from_param ::
  "'b env \<Rightarrow> pyval \<Rightarrow> pyval \<Rightarrow> 'b node \<Rightarrow> pose option \<times> 'b node" where
  "spawn_point_from_param env ident spawn_point_param w =
     (if spawn_point_param \<noteq> VNone then
        (case check_spawn_point_param env spawn_point_param of
           Inr p \<Rightarrow> (Some p, log Info SpawnPointFromParams w)
         | Inl e \<Rightarrow> (None, log Err (ParamUnusable ident e) w))
      else (None, w))"

text \<open>
  The six subscripts \<^verbatim>\<open>vehicle["spawn_point"][k]\<close>, in the order of the source: all
  six keys are read with \<^verbatim>\<open>[]\<close>, none has a default.
\<close>

definition spawn_point_from_config :: "'b env \<Rightarrow> pyval \<Rightarrow> exn + pose" where
  "spawn_point_from_config env vehicle =
     ebind (ebind (subscript vehicle ''spawn_point'') (\<lambda>sp. subscript sp ''x'')) (\<lambda>x.
     ebind (ebind (subscript vehicle ''spawn_point'') (\<lambda>sp. subscript sp ''y'')) (\<lambda>y.
     ebind (ebind (subscript vehicle ''spawn_point'') (\<lambda>sp. subscript sp ''z'')) (\<lambda>z.
     ebind (ebind (subscript vehicle ''spawn_point'') (\<lambda>sp. subscript sp ''roll'')) (\<lambda>roll.
     ebind (ebind (subscript vehicle ''spawn_point'') (\<lambda>sp. subscript sp ''pitch'')) (\<lambda>pitch.
     ebind (ebind (subscript vehicle ''spawn_point'') (\<lambda>sp. subscript sp ''yaw'')) (\<lambda>yaw.
       create_spawn_point env x y z roll pitch yaw))))))"

text \<open>
  Lines 137 to 166: the spawn point of one vehicle before the random fallback. Only a
  \<^verbatim>\<open>KeyError\<close> of the config file's spawn point is caught; any other exception
  leaves \<^verbatim>\<open>setup_vehicles\<close>.
\<close>

definition resolve_spawn_point ::
  "'b env \<Rightarrow> pyval \<Rightarrow> pyval \<Rightarrow> pyval \<Rightarrow> 'b node \<Rightarrow> (exn + pose option) \<times> 'b node" where
  "resolve_spawn_point env vehicle ident spawn_point_param w =
     (case spawn_point_from_param env ident spawn_point_param w of
        (spawn_point, w1) \<Rightarrow>
          (case has_key vehicle ''spawn_point'' of
             Inl e \<Rightarrow> (Inl e, w1)
           | Inr present \<Rightarrow>
               if present \<and> spawn_point = None then
                 (case spawn_point_from_config env vehicle of
                    Inr p \<Rightarrow> (Inr (Some p), log Info SpawnPointFromConfig w1)
                  | Inl e \<Rightarrow>
                      if is_KeyError e
                      then (Inr None, log Err (ConfigSpawnPointMissing ident e) w1)
                      else (Inl e, w1))
               else (Inr spawn_point, w1)))"

text \<open>
  What follows a spawn that succeeded, inside the \<^verbatim>\<open>while\<close> loop: the identifier
  joins the local list \<^verbatim>\<open>players\<close> (\<open>spawned\<close> here: \<open>players\<close> is the node's field)
  and the vehicle's sensors are set up, attached to it. A \<^verbatim>\<open>KeyError\<close> (no
  \<^verbatim>\<open>sensors\<close> field) is a warning.
\<close>

definition player_spawned ::
  "'b env \<Rightarrow> pyval \<Rightarrow> spawn_response \<Rightarrow> int list \<Rightarrow> 'b node \<Rightarrow> (exn + int list) \<times> 'b node" where
  "player_spawned env vehicle response spawned w =
     (case subscript vehicle ''sensors'' of
        Inl e \<Rightarrow>
          if is_KeyError e then (Inr (spawned @ [resp_id response]), log Warn NoSensorsField w)
          else (Inl e, w)
      | Inr sensors \<Rightarrow>
          (case setup_sensors env sensors (VInt (resp_id response)) w of
             (Inl e, w') \<Rightarrow>
               if is_KeyError e then (Inr (spawned @ [resp_id response]), log Warn NoSensorsField w')
               else (Inl e, w')
           | (Inr ids, w') \<Rightarrow>
               (Inr (spawned @ [resp_id response]),
                w'\<lparr>vehicles_sensors := vehicles_sensors w' @ [ids]\<rparr>)))"

text \<open>
  The \<^verbatim>\<open>while not player_spawned\<close> loop: the same request is sent until an answer
  carries an identifier other than -1. Nothing bounds the number of rounds, so the loop
  is a partial function: \<open>None\<close> is the run that never leaves it.
\<close>

partial_function (option) spawn_player ::
  "'b env \<Rightarrow> pyval \<Rightarrow> spawn_request \<Rightarrow> int list \<Rightarrow> 'b node
     \<Rightarrow> ((exn + int list) \<times> 'b node) option" where
  "spawn_player env vehicle spawn_object_request spawned w =
     (case call_spawn_object env spawn_object_request w of
        (Inl e, w') \<Rightarrow> Some (Inl e, w')
      | (Inr response, w') \<Rightarrow>
          if resp_id response \<noteq> - 1
          then Some (player_spawned env vehicle response spawned w')
          else spawn_player env vehicle spawn_object_request spawned w')"

text \<open>
  Lines 131 to 172 of the \<^verbatim>\<open>else\<close> branch (normal mode): the request for one
  vehicle. Without a spawn point it carries the empty pose and \<open>random_pose\<close>.
\<close>

definition vehicle_request ::
  "'b env \<Rightarrow> pyval \<Rightarrow> 'b node \<Rightarrow> (exn + spawn_request) \<times> 'b node" where
  "vehicle_request env vehicle w =
     (case subscript vehicle ''type'' of
        Inl e \<Rightarrow> (Inl e, w)
      | Inr ty \<Rightarrow>
     (case subscript vehicle ''id'' of
        Inl e \<Rightarrow> (Inl e, w)
      | Inr ident \<Rightarrow>
     (case ident of
        VStr s \<Rightarrow>
          (case resolve_spawn_point env vehicle ident
                  (get_param_or_None env (''~spawn_point_'' @ s)) w of
             (Inl e, w1) \<Rightarrow> (Inl e, w1)
           | (Inr None, w1) \<Rightarrow>
               (Inr \<lparr>req_type = ty, req_id = ident, attach_to = VInt 0, transform = empty_pose,
                     random_pose = True, attributes = []\<rparr>,
                log Info SpawnPointRandom w1)
           | (Inr (Some spawn_point), w1) \<Rightarrow>
               (Inr \<lparr>req_type = ty, req_id = ident, attach_to = VInt 0, transform = spawn_point,
                     random_pose = False, attributes = []\<rparr>,
                w1))
      | _ \<Rightarrow> (Inl TypeError, w))))"

text \<open>The body of the \<^verbatim>\<open>for\<close> loop in normal mode: the request, then the spawn loop.\<close>

definition spawn_vehicle ::
  "'b env \<Rightarrow> pyval \<Rightarrow> int list \<Rightarrow> 'b node \<Rightarrow> ((exn + int list) \<times> 'b node) option" where
  "spawn_vehicle env vehicle spawned w =
     (case vehicle_request env vehicle w of
        (Inl e, w') \<Rightarrow> Some (Inl e, w')
      | (Inr spawn_object_request, w') \<Rightarrow>
          spawn_player env vehicle spawn_object_request spawned w')"

text \<open>
  The body of the \<^verbatim>\<open>for\<close> loop in sensors-only mode, once \<open>carla_id\<close> is known. The
  handler formats \<^verbatim>\<open>vehicle["id"]\<close> into the exception it raises.
\<close>

definition attach_sensors :: "'b env \<Rightarrow> pyval \<Rightarrow> pyval \<Rightarrow> 'b node \<Rightarrow> (exn + unit) \<times> 'b node" where
  "attach_sensors env vehicle carla_id w =
     (case (case subscript vehicle ''sensors'' of
              Inl e \<Rightarrow> (Inl e, w)
            | Inr sensors \<Rightarrow> setup_sensors env sensors carla_id w) of
        (Inr ids, w') \<Rightarrow> (Inr (), w'\<lparr>vehicles_sensors := vehicles_sensors w' @ [ids]\<rparr>)
      | (Inl e, w') \<Rightarrow>
          (case subscript vehicle ''id'' of
             Inl e' \<Rightarrow> (Inl e', w')
           | Inr ident \<Rightarrow> (Inl (VehicleSensorsFailed ident e), w')))"

text \<open>
  The \<^verbatim>\<open>for\<close> loop. In sensors-only mode a vehicle without \<^verbatim>\<open>carla_id\<close> is logged
  and the loop is left by \<^verbatim>\<open>break\<close>: the players gathered so far are returned.
\<close>

fun vehicles_loop ::
  "'b env \<Rightarrow> pyval list \<Rightarrow> int list \<Rightarrow> 'b node \<Rightarrow> ((exn + int list) \<times> 'b node) option" where
  "vehicles_loop env [] spawned w = Some (Inr spawned, w)"
| "vehicles_loop env (vehicle # rest) spawned w =
     (if is_True (spawn_sensors_only w) then
        (case subscript vehicle ''carla_id'' of
           Inl e \<Rightarrow>
             if is_KeyError e then
               (case subscript vehicle ''id'' of
                  Inl e' \<Rightarrow> Some (Inl e', w)
                | Inr ident \<Rightarrow> Some (Inr spawned, log Err (CarlaIdUnknown ident) w))
             else Some (Inl e, w)
         | Inr carla_id \<Rightarrow>
             (case attach_sensors env vehicle carla_id w of
                (Inl e, w') \<Rightarrow> Some (Inl e, w')
              | (Inr _, w') \<Rightarrow> vehicles_loop env rest spawned w'))
      else
        (case spawn_vehicle env vehicle spawned w of
           None \<Rightarrow> None
         | Some (Inl e, w') \<Rightarrow> Some (Inl e, w')
         | Some (Inr spawned', w') \<Rightarrow> vehicles_loop env rest spawned' w'))"

definition setup_vehicles ::
  "'b env \<Rightarrow> pyval list \<Rightarrow> 'b node \<Rightarrow> ((exn + int list) \<times> 'b node) option" where
  "setup_vehicles env vehicles w = vehicles_loop env vehicles [] w"

section \<open>\<^verbatim>\<open>spawn_objects\<close>\<close>

text \<open>
  The first loop of \<^verbatim>\<open>spawn_objects\<close>, over \<^verbatim>\<open>json_actors["objects"]\<close>. Its three
  locals are the lists \<^verbatim>\<open>global_sensors\<close> and \<^verbatim>\<open>vehicles\<close> (\<open>sensors\<close> and
  \<open>vehicles\<close> here) and \<^verbatim>\<open>found_sensor_actor_list\<close>. The first test reads the
  parameter \<^verbatim>\<open>spawn_sensors_only\<close> for its truth value, not for identity with
  \<^verbatim>\<open>True\<close>.
\<close>

fun classify_loop ::
  "pyval list \<Rightarrow> pyval list \<Rightarrow> pyval list \<Rightarrow> bool \<Rightarrow> 'b node
     \<Rightarrow> (exn + pyval list \<times> pyval list \<times> bool) \<times> 'b node" where
  "classify_loop [] sensors vehicles found w = (Inr (sensors, vehicles, found), w)"
| "classify_loop (actor # rest) sensors vehicles found w =
     (case subscript actor ''type'' of
        Inl e \<Rightarrow> (Inl e, w)
      | Inr (VStr ty) \<Rightarrow>
          (case split (CHR ''.'') ty of
             [] \<Rightarrow> (Inl (OtherException ''IndexError''), w)
           | actor_type # _ \<Rightarrow>
               if ty = ''sensor.pseudo.actor_list'' \<and> truthy (spawn_sensors_only w) then
                 classify_loop rest (sensors @ [actor]) vehicles True w
               else if actor_type = ''sensor'' then
                 classify_loop rest (sensors @ [actor]) vehicles found w
               else if actor_type = ''vehicle'' \<or> actor_type = ''walker'' then
                 classify_loop rest sensors (vehicles @ [actor]) found w
               else
                 classify_loop rest sensors vehicles found (log Warn (IgnoredType (VStr ty)) w))
      | Inr _ \<Rightarrow> (Inl AttributeError, w))"

text \<open>
  The loop of sensors-only mode that asks the simulator for each vehicle's identifier
  and stores it in the vehicle's dict under \<^verbatim>\<open>carla_id\<close>.
\<close>

fun lookup_loop ::
  "'b env \<Rightarrow> pyval list \<Rightarrow> 'b node \<Rightarrow> (exn + pyval list) \<times> 'b node" where
  "lookup_loop env [] w = (Inr [], w)"
| "lookup_loop env (vehicle # rest) w =
     (case subscript vehicle ''id'' of
        Inl e \<Rightarrow> (Inl e, w)
      | Inr ident \<Rightarrow>
          (case call_get_actor env ident (- 1) w of
             (Inl e, w') \<Rightarrow> (Inl e, w')
           | (Inr carla_id, w') \<Rightarrow>
               (case lookup_loop env rest w' of
                  (Inl e, w'') \<Rightarrow> (Inl e, w'')
                | (Inr vs, w'') \<Rightarrow>
                    (Inr (VDict (dict_set (items vehicle) ''carla_id'' (VInt carla_id)) # vs), w''))))"

text \<open>
  \<^verbatim>\<open>spawn_objects\<close>. \<open>None\<close> is the run that stays in a vehicle's spawn loop for
  ever. The exceptions of the two \<^verbatim>\<open>try\<close> blocks are wrapped; every other one leaves
  as it is.
\<close>

definition spawn_objects :: "'b env \<Rightarrow> 'b node \<Rightarrow> ((exn + unit) \<times> 'b node) option" where
  "spawn_objects env w =
     (case objects_definition_file w of
        None \<Rightarrow> Some (Inl RuntimeError, w)
      | Some (Inl e) \<Rightarrow> Some (Inl e, w)
      | Some (Inr json_actors) \<Rightarrow>
     (case ebind (subscript json_actors ''objects'') iterate of
        Inl e \<Rightarrow> Some (Inl e, w)
      | Inr objects \<Rightarrow>
     (case classify_loop objects [] [] False w of
        (Inl e, w1) \<Rightarrow> Some (Inl e, w1)
      | (Inr (sensors, vehicles, found_sensor_actor_list), w1) \<Rightarrow>
          if is_True (spawn_sensors_only w1) \<and> \<not> found_sensor_actor_list then
            Some (Inl ActorListMissing, w1)
          else
     (case setup_sensors env (VList sensors) (VInt 0) w1 of
        (Inl e, w2) \<Rightarrow> Some (Inl (GlobalSensorsFailed e), w2)
      | (Inr ids, w2) \<Rightarrow>
     (case (if is_True (spawn_sensors_only w2)
            then lookup_loop env vehicles (w2\<lparr>global_sensors := ids\<rparr>)
            else (Inr vehicles, w2\<lparr>global_sensors := ids\<rparr>)) of
        (Inl e, w3) \<Rightarrow> Some (Inl e, w3)
      | (Inr vehicles', w3) \<Rightarrow>
     (case setup_vehicles env vehicles' w3 of
        None \<Rightarrow> None
      | Some (Inl e, w4) \<Rightarrow> Some (Inl (VehiclesFailed e), w4)
      | Some (Inr ids', w4) \<Rightarrow> Some (Inr (), w4\<lparr>players := ids'\<rparr>)))))))"

section \<open>\<^verbatim>\<open>destroy\<close>\<close>

text \<open>
  Each of the three iterations in \<^verbatim>\<open>destroy\<close>: a \<^verbatim>\<open>rospy.ServiceException\<close> of the call
  is caught and handed to \<^verbatim>\<open>logwarn_once\<close>; any other exception leaves \<^verbatim>\<open>destroy\<close>.
  The answer of the service is not read. \<open>site\<close> is the line of the
  \<^verbatim>\<open>logwarn_once\<close> call.
\<close>

fun destroy_loop :: "'b env \<Rightarrow> nat \<Rightarrow> int list \<Rightarrow> 'b node \<Rightarrow> (exn + unit) \<times> 'b node" where
  "destroy_loop env site [] w = (Inr (), w)"
| "destroy_loop env site (actor_id # rest) w =
     (case call_destroy_object env actor_id w of
        (Inl (ServiceException m), w') \<Rightarrow>
          destroy_loop env site rest (logwarn_once site (DestroyFailed m) w')
      | (Inl e, w') \<Rightarrow> (Inl e, w')
      | (Inr _, w') \<Rightarrow> destroy_loop env site rest w')"

fun destroy_groups :: "'b env \<Rightarrow> int list list \<Rightarrow> 'b node \<Rightarrow> (exn + unit) \<times> 'b node" where
  "destroy_groups env [] w = (Inr (), w)"
| "destroy_groups env (vehicle_sensors_id # rest) w =
     (case destroy_loop env 314 vehicle_sensors_id w of
        (Inl e, w') \<Rightarrow> (Inl e, w')
      | (Inr _, w') \<Rightarrow> destroy_groups env rest w')"

definition destroy :: "'b env \<Rightarrow> 'b node \<Rightarrow> (exn + unit) \<times> 'b node" where
  "destroy env w =
     (case destroy_loop env 304 (global_sensors w) w of
        (Inl e, w1) \<Rightarrow> (Inl e, w1)
      | (Inr _, w1) \<Rightarrow>
     (case destroy_groups env (vehicles_sensors w1) (w1\<lparr>global_sensors := []\<rparr>) of
        (Inl e, w2) \<Rightarrow> (Inl e, w2)
      | (Inr _, w2) \<Rightarrow>
     (case destroy_loop env 323 (players w2) (w2\<lparr>vehicles_sensors := []\<rparr>) of
        (Inl e, w3) \<Rightarrow> (Inl e, w3)
      | (Inr _, w3) \<Rightarrow> (Inr (), w3\<lparr>players := []\<rparr>))))"

section \<open>What a run shows, and sample simulators\<close>

text \<open>
  The trace of a node holds the service calls it made and the lines it logged. \<open>calls\<close>
  keeps the former, \<open>logs\<close> the latter.
\<close>

fun is_Log :: "event \<Rightarrow> bool" where
  "is_Log (Log l m) = True"
| "is_Log _ = False"

definition calls :: "event list \<Rightarrow> event list" where
  "calls tr = filter (\<lambda>ev. \<not> is_Log ev) tr"

definition logs :: "event list \<Rightarrow> event list" where
  "logs tr = filter is_Log tr"

text \<open>
  The log lines written so far plus the call sites of \<open>S\<close> that may still log once.
\<close>

definition pending :: "nat set \<Rightarrow> 'b node \<Rightarrow> nat" where
  "pending S w = length (logs (trace w)) + card (S - set (logged_once w))"

text \<open>
  A simulator for running the node on examples. Its state counts the service calls. It
  refuses the first two spawn requests, fails to destroy the actors 1 and 2 with a
  \<^verbatim>\<open>ServiceException\<close>, and knows every role as actor 7.
\<close>

definition sim :: "nat env" where
  "sim = \<lparr>spawn_object_service = (\<lambda>req n.
            (Inr (if n < 2 then \<lparr>resp_id = - 1, error_string = ''not ready''\<rparr>
                  else \<lparr>resp_id = 40 + int n, error_string = []\<rparr>), Suc n)),
          destroy_object_service = (\<lambda>i n.
            (if i = 1 \<or> i = 2 then Inl (ServiceException ''gone'') else Inr True, Suc n)),
          get_actor_service = (\<lambda>role i n. (Inr 7, Suc n)),
          get_param = (\<lambda>name. None),
          py_float = (\<lambda>s. None),
          py_repr = (\<lambda>v. ''?''),
          quaternion_from_euler_deg = (\<lambda>r p y. (r, p, y, Finite 1))\<rparr>"


definition node0 :: "nat node" where
  "node0 = \<lparr>objects_definition_file = None, spawn_sensors_only = VNone, players = [],
            vehicles_sensors = [], global_sensors = [], backend = 0, trace = [],
            logged_once = []\<rparr>"

definition ledger_node :: "nat node" where
  "ledger_node = node0\<lparr>global_sensors := [1, 2], vehicles_sensors := [[3], [4, 2]], players := [5]\<rparr>"

definition torn_down_node :: "nat node" where
  "torn_down_node = node0\<lparr>backend := 6,
     trace := [DestroyObject 1, Log Warn (DestroyFailed ''gone''), DestroyObject 2,
               DestroyObject 3, DestroyObject 4, DestroyObject 2,
               Log Warn (DestroyFailed ''gone''), DestroyObject 5],
     logged_once := [304, 314]\<rparr>"

text \<open>
  The three ways of an entry of the configuration, and the rule of the specification
  that chooses among them from the entry's type: \<open>type_prefix\<close> is
  \<^verbatim>\<open>actor["type"].split('.')[0]\<close>.
\<close>

datatype route = GlobalSensor | Entity | Ignored

definition type_prefix :: "string \<Rightarrow> string" where
  "type_prefix ty = (case split (CHR ''.'') ty of [] \<Rightarrow> [] | actor_type # _ \<Rightarrow> actor_type)"

definition spec_route :: "string \<Rightarrow> route" where
  "spec_route ty =
     (if type_prefix ty = ''sensor'' then GlobalSensor
      else if type_prefix ty = ''vehicle'' \<or> type_prefix ty = ''walker'' then Entity
      else Ignored)"

definition type_of :: "pyval \<Rightarrow> string" where
  "type_of actor = (case subscript actor ''type'' of Inr (VStr ty) \<Rightarrow> ty | _ \<Rightarrow> [])"

text \<open>Entries of a configuration file, for the examples.\<close>

definition camera :: pyval where
  "camera = VDict [(''type'', VStr ''sensor.camera.rgb''), (''id'', VStr ''front''),
                   (''spawn_point'', VDict [(''x'', VFloat (Finite 2)), (''y'', VFloat (Finite 0)), (''z'', VFloat (Finite 2))])]"

definition actor_list :: pyval where
  "actor_list = VDict [(''type'', VStr ''sensor.pseudo.actor_list''), (''id'', VStr ''actor_list'')]"

definition ego :: pyval where
  "ego = VDict [(''type'', VStr ''vehicle.tesla.model3''), (''id'', VStr ''ego_vehicle'')]"

definition walker :: pyval where
  "walker = VDict [(''type'', VStr ''walker.pedestrian.0001''), (''id'', VStr ''walker1'')]"

definition crate :: pyval where
  "crate = VDict [(''type'', VStr ''static.prop.box''), (''id'', VStr ''box'')]"


definition ego_placed :: pyval where
  "ego_placed = VDict [(''type'', VStr ''vehicle.tesla.model3''), (''id'', VStr ''ego_vehicle''),
     (''spawn_point'', VDict [(''x'', VFloat (Finite 10)), (''y'', VFloat (Finite 20)), (''z'', VFloat (Finite 30)),
                              (''roll'', VInt 0), (''pitch'', VInt 0), (''yaw'', VFloat (Finite 180))])]"

definition ego_xyz :: pyval where
  "ego_xyz = VDict [(''type'', VStr ''vehicle.tesla.model3''), (''id'', VStr ''ego_vehicle''),
     (''spawn_point'', VDict [(''x'', VFloat (Finite 10)), (''y'', VFloat (Finite 20)), (''z'', VFloat (Finite 30))])]"

text \<open>The keys that lines 156 to 161 read from the spawn point of the config file.\<close>

definition spawn_point_keys :: "string list" where
  "spawn_point_keys = [''x'', ''y'', ''z'', ''roll'', ''pitch'', ''yaw'']"

text \<open>
  The answers of the simulator to one request sent again and again: \<open>backend_after\<close> is
  its state after \<open>k\<close> such calls, \<open>answer\<close> what it says to the next one.
\<close>

fun backend_after :: "'b env \<Rightarrow> spawn_request \<Rightarrow> nat \<Rightarrow> 'b \<Rightarrow> 'b" where
  "backend_after env req 0 b = b"
| "backend_after env req (Suc k) b = backend_after env req k (snd (spawn_object_service env req b))"

definition answer :: "'b env \<Rightarrow> spawn_request \<Rightarrow> nat \<Rightarrow> 'b \<Rightarrow> exn + spawn_response" where
  "answer env req k b = fst (spawn_object_service env req (backend_after env req k b))"





definition ego_random_request :: spawn_request where
  "ego_random_request =
     \<lparr>req_type = VStr ''vehicle.tesla.model3'', req_id = VStr ''ego_vehicle'',
      attach_to = VInt 0, transform = empty_pose, random_pose = True, attributes = []\<rparr>"

definition gnss_request :: spawn_request where
  "gnss_request =
     \<lparr>req_type = VStr ''sensor.other.gnss'', req_id = VStr ''gnss'', attach_to = VInt 7,
      transform = \<lparr>pos_x = VFloat (Finite 0), pos_y = VFloat (Finite 0), pos_z = VFloat (Finite 0),
                   orientation = (Finite 0, Finite 0, Finite 0, Finite 1)\<rparr>,
      random_pose = False, attributes = []\<rparr>"

text \<open>
  The name that lines 203 to 206 derive for a sensor: \<open>None\<close> when the sensor has no
  type or no id, and so never reaches line 206.
\<close>

definition sensor_name :: "'b env \<Rightarrow> pyval \<Rightarrow> string option" where
  "sensor_name env sensor_spec =
     (case pop sensor_spec ''type'' of
        Inl e \<Rightarrow> None
      | Inr (ty, spec1) \<Rightarrow>
          (case pop spec1 ''id'' of
             Inl e \<Rightarrow> None
           | Inr (ident, spec2) \<Rightarrow> Some (str env ty @ ''/'' @ str env ident)))"

text \<open>Two nodes that differ at most in what they have logged.\<close>

definition same_calls :: "'b node \<Rightarrow> 'b node \<Rightarrow> bool" where
  "same_calls w v = (backend w = backend v \<and> calls (trace w) = calls (trace v))"

text \<open>Two sensors for the examples, and the request of the second.\<close>

definition gnss :: pyval where
  "gnss = VDict [(''type'', VStr ''sensor.other.gnss''), (''id'', VStr ''gnss'')]"

definition imu :: pyval where
  "imu = VDict [(''type'', VStr ''sensor.other.imu''), (''id'', VStr ''imu''),
                (''sensor_tick'', VStr ''0.05'')]"

definition imu_request :: spawn_request where
  "imu_request =
     \<lparr>req_type = VStr ''sensor.other.imu'', req_id = VStr ''imu'', attach_to = VInt 7,
      transform = \<lparr>pos_x = VFloat (Finite 0), pos_y = VFloat (Finite 0), pos_z = VFloat (Finite 0),
                   orientation = (Finite 0, Finite 0, Finite 0, Finite 1)\<rparr>,
      random_pose = False, attributes = [(''sensor_tick'', ''0.05'')]\<rparr>"

text \<open>
  The lookups by role among the events of a trace, and two nodes with the same
  \<^verbatim>\<open>spawn_sensors_only\<close> that have made the same lookups.
\<close>

fun is_GetActor :: "event \<Rightarrow> bool" where
  "is_GetActor (GetActor role i) = True"
| "is_GetActor _ = False"

definition lookups :: "event list \<Rightarrow> event list" where
  "lookups tr = filter is_GetActor tr"

definition same_mode :: "'b node \<Rightarrow> 'b node \<Rightarrow> bool" where
  "same_mode w w' =
     (spawn_sensors_only w' = spawn_sensors_only w \<and> lookups (trace w') = lookups (trace w))"

text \<open>
  A node whose \<^verbatim>\<open>spawn_sensors_only\<close> is the number 1, true but not \<^verbatim>\<open>True\<close>, and
  what \<^verbatim>\<open>spawn_objects\<close> makes of it.
\<close>

definition truthy_node :: "nat node" where
  "truthy_node = node0\<lparr>spawn_sensors_only := VInt 1, backend := 2,
     objects_definition_file := Some (Inr (VDict [(''objects'', VList [actor_list, ego])]))\<rparr>"

definition actor_list_request :: spawn_request where
  "actor_list_request =
     \<lparr>req_type = VStr ''sensor.pseudo.actor_list'', req_id = VStr ''actor_list'',
      attach_to = VInt 0,
      transform = \<lparr>pos_x = VFloat (Finite 0), pos_y = VFloat (Finite 0), pos_z = VFloat (Finite 0),
                   orientation = (Finite 0, Finite 0, Finite 0, Finite 1)\<rparr>,
      random_pose = False, attributes = []\<rparr>"

definition normal_run_node :: "nat node" where
  "normal_run_node = truthy_node\<lparr>players := [43], global_sensors := [42], backend := 4,
     trace := [SpawnObject actor_list_request, Log Info SpawnPointRandom,
               SpawnObject ego_random_request, Log Warn NoSensorsField]\<rparr>"

text \<open>
  What the specification calls a usable runtime override and a usable spawn point of the
  config file, stated without the code. An override is usable when it is a string of
  exactly six fields between commas, each one read by \<^verbatim>\<open>float\<close>, with roll, pitch and yaw
  not infinite; its pose is then that of the six numbers. A config spawn point is complete
  when it is an object with the six keys whose roll, pitch and yaw are numbers with a
  finite float. It is lacking when the vehicle has none or when it is an object without
  one of the six keys.
\<close>

definition override_pose :: "'b env \<Rightarrow> pyval \<Rightarrow> pose option" where
  "override_pose env param =
     (case param of
        VStr s \<Rightarrow>
          (case map (py_float env) (split (CHR '','') s) of
             [Some x, Some y, Some z, Some roll, Some pitch, Some yaw] \<Rightarrow>
               if infinite_float roll \<or> infinite_float pitch \<or> infinite_float yaw then None
               else Some \<lparr>pos_x = VFloat x, pos_y = VFloat y, pos_z = VFloat z,
                          orientation = quaternion_from_euler_deg env roll pitch yaw\<rparr>
           | _ \<Rightarrow> None)
      | _ \<Rightarrow> None)"





text \<open>
  What teardown is to show, stated without the code. The \<open>schedule\<close> of a node lists the
  identifiers to destroy in the order of the specification, each with the line of the
  \<^verbatim>\<open>logwarn_once\<close> call of its loop. \<open>destroy_answers\<close> are the answers of the destroy
  service to a list of requests sent one after the other, and \<open>destroy_backend\<close> is the
  simulator afterwards. \<open>reported\<close> is what a run over a schedule with given answers
  leaves in the trace: each request, followed by a warning when it failed with a
  \<^verbatim>\<open>ServiceException\<close> and its call site had not warned before; \<open>warned\<close> are the call
  sites that have warned at the end.
\<close>

fun destroy_answers :: "'b env \<Rightarrow> int list \<Rightarrow> 'b \<Rightarrow> (exn + bool) list" where
  "destroy_answers env [] b = []"
| "destroy_answers env (i # ids) b =
     fst (destroy_object_service env i b) #
     destroy_answers env ids (snd (destroy_object_service env i b))"


fun reported :: "nat list \<Rightarrow> (nat \<times> int) list \<Rightarrow> (exn + bool) list \<Rightarrow> event list" where
  "reported sites ((site, i) # rest) (Inl (ServiceException m) # answers) =
     (if site \<in> set sites then DestroyObject i # reported sites rest answers
      else DestroyObject i # Log Warn (DestroyFailed m) # reported (sites @ [site]) rest answers)"
| "reported sites ((site, i) # rest) (a # answers) = DestroyObject i # reported sites rest answers"
| "reported sites _ _ = []"

fun warned :: "nat list \<Rightarrow> (nat \<times> int) list \<Rightarrow> (exn + bool) list \<Rightarrow> nat list" where
  "warned sites ((site, i) # rest) (Inl (ServiceException m) # answers) =
     (if site \<in> set sites then warned sites rest answers
      else warned (sites @ [site]) rest answers)"
| "warned sites ((site, i) # rest) (a # answers) = warned sites rest answers"
| "warned sites _ _ = sites"


text \<open>
  The error of line 121, for a vehicle whose \<^verbatim>\<open>carla_id\<close> is not known, among the events
  of a trace; and the relation between two states of the node that agree on the parameter
  \<^verbatim>\<open>spawn_sensors_only\<close> and on these errors.
\<close>

fun is_CarlaIdUnknown :: "event \<Rightarrow> bool" where
  "is_CarlaIdUnknown (Log l (CarlaIdUnknown ident)) = True"
| "is_CarlaIdUnknown _ = False"

definition unknown_reports :: "event list \<Rightarrow> event list" where
  "unknown_reports tr = filter is_CarlaIdUnknown tr"

definition quiet :: "'b node \<Rightarrow> 'b node \<Rightarrow> bool" where
  "quiet w w' =
     (spawn_sensors_only w' = spawn_sensors_only w \<and>
      unknown_reports (trace w') = unknown_reports (trace w))"



section \<open>Teardown\<close>

lemma calls_append [simp]: "calls (xs @ ys) = calls xs @ calls ys"
  by (simp add: calls_def)

lemma logs_append [simp]: "logs (xs @ ys) = logs xs @ logs ys"
  by (simp add: logs_def)

lemma calls_simps [simp]:
  "calls [] = []" "calls (Log l m # tr) = calls tr"
  "calls (SpawnObject q # tr) = SpawnObject q # calls tr"
  "calls (DestroyObject i # tr) = DestroyObject i # calls tr"
  "calls (GetActor v i # tr) = GetActor v i # calls tr"
  by (simp_all add: calls_def)

lemma logs_simps [simp]:
  "logs [] = []" "logs (Log l m # tr) = Log l m # logs tr"
  "logs (SpawnObject q # tr) = logs tr"
  "logs (DestroyObject i # tr) = logs tr"
  "logs (GetActor v i # tr) = logs tr"
  by (simp_all add: logs_def)

lemma logwarn_once_fields [simp]:
  "players (logwarn_once s m w) = players w"
  "vehicles_sensors (logwarn_once s m w) = vehicles_sensors w"
  "global_sensors (logwarn_once s m w) = global_sensors w"
  "backend (logwarn_once s m w) = backend w"
  "calls (trace (logwarn_once s m w)) = calls (trace w)"
  by (simp_all add: logwarn_once_def log_def)

lemma call_destroy_object_fields:
  "call_destroy_object env i w = (r, w') \<Longrightarrow>
     players w' = players w \<and> vehicles_sensors w' = vehicles_sensors w \<and>
     global_sensors w' = global_sensors w \<and> logged_once w' = logged_once w \<and>
     trace w' = trace w @ [DestroyObject i]"
  by (auto simp: call_destroy_object_def split: prod.splits)

lemma destroy_loop_fields:
  "destroy_loop env s ids w = (r, w') \<Longrightarrow>
     players w' = players w \<and> vehicles_sensors w' = vehicles_sensors w \<and>
     global_sensors w' = global_sensors w"
proof (induction ids arbitrary: w)
  case Nil
  then show ?case by simp
next
  case (Cons i ids)
  obtain r1 w1 where c: "call_destroy_object env i w = (r1, w1)" by (cases "call_destroy_object env i w")
  note f = call_destroy_object_fields [OF c]
  show ?case
  proof (cases r1)
    case (Inr b)
    with Cons.prems c have "destroy_loop env s ids w1 = (r, w')" by simp
    from Cons.IH [OF this] f show ?thesis by simp
  next
    case (Inl e)
    show ?thesis
    proof (cases "\<exists>m. e = ServiceException m")
      case True
      then obtain m where "e = ServiceException m" by blast
      with Cons.prems c Inl
      have "destroy_loop env s ids (logwarn_once s (DestroyFailed m) w1) = (r, w')" by simp
      from Cons.IH [OF this] f show ?thesis by simp
    next
      case False
      with Cons.prems c Inl have "w' = w1" by (cases e) auto
      with f show ?thesis by simp
    qed
  qed
qed

lemma destroy_groups_fields:
  "destroy_groups env gs w = (r, w') \<Longrightarrow>
     players w' = players w \<and> vehicles_sensors w' = vehicles_sensors w \<and>
     global_sensors w' = global_sensors w"
proof (induction gs arbitrary: w)
  case Nil
  then show ?case by simp
next
  case (Cons g gs)
  obtain r1 w1 where c: "destroy_loop env 314 g w = (r1, w1)" by (cases "destroy_loop env 314 g w")
  note f = destroy_loop_fields [OF c]
  show ?case
  proof (cases r1)
    case (Inr u)
    with Cons.prems c have "destroy_groups env gs w1 = (r, w')" by simp
    from Cons.IH [OF this] f show ?thesis by simp
  next
    case (Inl e)
    with Cons.prems c have "w' = w1" by simp
    with f show ?thesis by simp
  qed
qed

lemma destroy_clears:
  assumes "destroy env w = (Inr u, w')"
  shows "global_sensors w' = [] \<and> vehicles_sensors w' = [] \<and> players w' = []"
proof -
  obtain r1 w1 where 1: "destroy_loop env 304 (global_sensors w) w = (r1, w1)"
    by (cases "destroy_loop env 304 (global_sensors w) w")
  obtain r2 w2 where 2: "destroy_groups env (vehicles_sensors w1) (w1\<lparr>global_sensors := []\<rparr>) = (r2, w2)"
    by (cases "destroy_groups env (vehicles_sensors w1) (w1\<lparr>global_sensors := []\<rparr>)")
  obtain r3 w3 where 3: "destroy_loop env 323 (players w2) (w2\<lparr>vehicles_sensors := []\<rparr>) = (r3, w3)"
    by (cases "destroy_loop env 323 (players w2) (w2\<lparr>vehicles_sensors := []\<rparr>)")
  from assms 1 2 3 have w': "w' = w3\<lparr>players := []\<rparr>"
    by (auto simp: destroy_def split: sum.splits)
  from destroy_groups_fields [OF 2] destroy_loop_fields [OF 3] w'
  show ?thesis by simp
qed






lemma pending_fields [simp]:
  "pending S (w\<lparr>global_sensors := a\<rparr>) = pending S w"
  "pending S (w\<lparr>vehicles_sensors := b\<rparr>) = pending S w"
  "pending S (w\<lparr>players := c\<rparr>) = pending S w"
  by (simp_all add: pending_def)

lemma destroy_ledger_node: "destroy sim ledger_node = (Inr (), torn_down_node)"
  by (simp add: destroy_def sim_def node0_def ledger_node_def torn_down_node_def
      call_destroy_object_def logwarn_once_def log_def)

lemma length_destroy_answers [simp]: "length (destroy_answers env ids b) = length ids"
  by (induction ids arbitrary: b) simp_all





lemma reported_Cons_failed:
  "reported sites ((site, i) # rest) (Inl (ServiceException m) # answers) =
     DestroyObject i #
     (if site \<in> set sites then reported sites rest answers
      else Log Warn (DestroyFailed m) # reported (sites @ [site]) rest answers)"
  by simp

lemma reported_Cons_ok:
  "reported sites ((site, i) # rest) (Inr b # answers) = DestroyObject i # reported sites rest answers"
  by simp

lemma warned_Cons_ok:
  "warned sites ((site, i) # rest) (Inr b # answers) = warned sites rest answers"
  by simp










text \<open>
  Claim C9. When a call of \<^verbatim>\<open>destroy\<close> has returned, a second call right after it
  returns too and leaves the node as it is: it sends no request (the trace and the
  simulator are unchanged) and raises nothing.
\<close>

theorem destroy_twice_noop:
  assumes "destroy env w = (Inr (), w')"
  shows "destroy env w' = (Inr (), w')"
proof -
  from destroy_clears [OF assms]
  have e: "global_sensors w' = []" "vehicles_sensors w' = []" "players w' = []" by simp_all
  then show ?thesis by (simp add: destroy_def)
qed

theorem destroy_twice_noop_witness:
  "destroy sim ledger_node = (Inr (), torn_down_node) \<and>
   destroy sim torn_down_node = (Inr (), torn_down_node)"
  using destroy_twice_noop [OF destroy_ledger_node] destroy_ledger_node by simp

section \<open>Classification\<close>

lemma split_acc_nonempty: "split_acc sep acc s \<noteq> []"
  by (induction s arbitrary: acc) auto

lemma split_nonempty: "split sep s \<noteq> []"
  by (simp add: split_def split_acc_nonempty)

lemma type_prefix_actor_list: "type_prefix ''sensor.pseudo.actor_list'' = ''sensor''"
  by (simp add: type_prefix_def split_def)

lemma classify_loop_gen:
  assumes "\<forall>a\<in>set objects. \<exists>ty. subscript a ''type'' = Inr (VStr ty)"
  shows "classify_loop objects sensors vehicles found w =
     (Inr (sensors @ filter (\<lambda>a. spec_route (type_of a) = GlobalSensor) objects,
           vehicles @ filter (\<lambda>a. spec_route (type_of a) = Entity) objects,
           found \<or> (truthy (spawn_sensors_only w) \<and>
                    (\<exists>a\<in>set objects. type_of a = ''sensor.pseudo.actor_list''))),
      w\<lparr>trace := trace w @ map (\<lambda>a. Log Warn (IgnoredType (VStr (type_of a))))
                           (filter (\<lambda>a. spec_route (type_of a) = Ignored) objects)\<rparr>)"
  using assms
proof (induction objects arbitrary: sensors vehicles found w)
  case Nil
  then show ?case by simp
next
  case (Cons a objects)
  then obtain ty where ty: "subscript a ''type'' = Inr (VStr ty)" by auto
  then have t: "type_of a = ty" by (simp add: type_of_def)
  obtain p ps where sp: "split (CHR ''.'') ty = p # ps"
    using split_nonempty [of "CHR ''.''" ty] by (cases "split (CHR ''.'') ty") auto
  then have tp: "type_prefix ty = p" by (simp add: type_prefix_def)
  from Cons.prems have rest: "\<forall>a\<in>set objects. \<exists>ty. subscript a ''type'' = Inr (VStr ty)" by simp
  note IH = Cons.IH [OF rest]
  show ?case
  proof (cases "ty = ''sensor.pseudo.actor_list''")
    case True
    with tp type_prefix_actor_list have "p = ''sensor''" by simp
    with True ty t sp tp show ?thesis
      by (auto simp: IH spec_route_def log_def)
  next
    case False
    with ty t sp tp show ?thesis
      by (auto simp: IH spec_route_def log_def)
  qed
qed


lemma calls_map_Log [simp]: "calls (map (\<lambda>a. Log l (f a)) xs) = []"
  by (induction xs) simp_all

text \<open>
  Claim C5. When every entry has a string as its type, the first loop of
  \<^verbatim>\<open>spawn_objects\<close> ends with each entry in exactly one place, chosen by the
  type alone: in the global sensors when the part before the first dot is
  \<^verbatim>\<open>sensor\<close>, among the vehicles when it is \<^verbatim>\<open>vehicle\<close> or \<^verbatim>\<open>walker\<close>, and
  in a warning of the log otherwise; the order of the entries is kept. The parameter
  \<^verbatim>\<open>spawn_sensors_only\<close> only decides the flag, and \<^verbatim>\<open>sensor.pseudo.actor_list\<close> is
  a global sensor whatever it is.
\<close>

theorem classification_by_type:
  assumes "\<forall>a\<in>set objects. \<exists>ty. subscript a ''type'' = Inr (VStr ty)"
  shows "classify_loop objects [] [] False w =
     (Inr (filter (\<lambda>a. spec_route (type_of a) = GlobalSensor) objects,
           filter (\<lambda>a. spec_route (type_of a) = Entity) objects,
           truthy (spawn_sensors_only w) \<and>
             (\<exists>a\<in>set objects. type_of a = ''sensor.pseudo.actor_list'')),
      w\<lparr>trace := trace w @ map (\<lambda>a. Log Warn (IgnoredType (VStr (type_of a))))
                           (filter (\<lambda>a. spec_route (type_of a) = Ignored) objects)\<rparr>) \<and>
     spec_route ''sensor.pseudo.actor_list'' = GlobalSensor"
  using classify_loop_gen [OF assms, of "[]" "[]" False w]
  by (simp add: spec_route_def type_prefix_actor_list)

theorem classification_by_type_witness:
  "classify_loop [camera, ego, crate, actor_list, walker] [] [] False
       (node0\<lparr>spawn_sensors_only := VBool True\<rparr>) =
     (Inr ([camera, actor_list], [ego, walker], True),
      node0\<lparr>spawn_sensors_only := VBool True,
            trace := [Log Warn (IgnoredType (VStr ''static.prop.box''))]\<rparr>)"
  using classification_by_type [of "[camera, ego, crate, actor_list, walker]"
      "node0\<lparr>spawn_sensors_only := VBool True\<rparr>"]
  by (simp add: camera_def ego_def crate_def actor_list_def walker_def node0_def
      spec_route_def type_prefix_def type_of_def split_def)

text \<open>
  Claim C6. In sensors-only mode (\<^verbatim>\<open>spawn_sensors_only is True\<close>), when the file
  decodes to entries none of which has the type \<^verbatim>\<open>sensor.pseudo.actor_list\<close>,
  \<^verbatim>\<open>spawn_objects\<close> raises the exception of line 96, and until then no service has
  been called: the trace has gained log lines only and the simulator is untouched.
\<close>

theorem actor_list_required:
  assumes "is_True (spawn_sensors_only w)"
    and "objects_definition_file w = Some (Inr json_actors)"
    and "ebind (subscript json_actors ''objects'') iterate = Inr objects"
    and "\<forall>a\<in>set objects. \<exists>ty. subscript a ''type'' = Inr (VStr ty)"
    and "\<forall>a\<in>set objects. type_of a \<noteq> ''sensor.pseudo.actor_list''"
  shows "\<exists>w'. spawn_objects env w = Some (Inl ActorListMissing, w') \<and>
           calls (trace w') = calls (trace w) \<and> backend w' = backend w"
  using assms(1,2,3,5)
  by (simp add: spawn_objects_def classify_loop_gen [OF assms(4)])

theorem actor_list_required_witness:
  "\<exists>w'. spawn_objects sim
      (node0\<lparr>spawn_sensors_only := VBool True,
             objects_definition_file := Some (Inr (VDict [(''objects'', VList [camera, ego, crate])]))\<rparr>)
     = Some (Inl ActorListMissing, w') \<and> calls (trace w') = [] \<and> backend w' = 0"
  using actor_list_required [of "node0\<lparr>spawn_sensors_only := VBool True,
             objects_definition_file := Some (Inr (VDict [(''objects'', VList [camera, ego, crate])]))\<rparr>"
     "VDict [(''objects'', VList [camera, ego, crate])]" "[camera, ego, crate]" sim]
  by (simp add: camera_def ego_def crate_def node0_def is_True_def ebind_def type_of_def)

section \<open>The spawn point of a vehicle\<close>

lemma check_spawn_point_param_None [simp]: "check_spawn_point_param env VNone = Inl AttributeError"
  by simp

lemma spawn_point_from_config_absent:
  "map_of d ''spawn_point'' = None \<Longrightarrow>
     spawn_point_from_config env (VDict d) = Inl (KeyError ''spawn_point'')"
  by (simp add: spawn_point_from_config_def ebind_def)

lemma subscript_Inr_dict: "subscript v k = Inr x \<Longrightarrow> \<exists>d. v = VDict d \<and> map_of d k = Some x"
  by (cases v) (auto split: option.splits)

lemma ego_placed_fields:
  "subscript ego_placed ''type'' = Inr (VStr ''vehicle.tesla.model3'')"
  "subscript ego_placed ''id'' = Inr (VStr ''ego_vehicle'')"
  by (simp_all add: ego_placed_def)


lemma ego_request:
  "vehicle_request sim ego node0 =
     (Inr \<lparr>req_type = VStr ''vehicle.tesla.model3'', req_id = VStr ''ego_vehicle'',
           attach_to = VInt 0, transform = empty_pose, random_pose = True, attributes = []\<rparr>,
      node0\<lparr>trace := [Log Info SpawnPointRandom]\<rparr>)"
  by (simp add: vehicle_request_def resolve_spawn_point_def spawn_point_from_param_def ego_def
      sim_def node0_def get_param_or_None_def log_def)


lemma check_rejects:
  "override_pose env param = None \<Longrightarrow> \<exists>e. check_spawn_point_param env param = Inl e"
  by (cases param)
     (auto simp: override_pose_def to_float_def ebind_def create_spawn_point_def
       split: list.splits option.splits if_splits)









lemma sim_no_override: "override_pose sim (get_param_or_None sim name) = None"
  by (simp add: override_pose_def sim_def get_param_or_None_def)






lemma spawn_point_from_config_missing:
  assumes "map_of d ''spawn_point'' = Some (VDict sp)"
    and "\<exists>k\<in>set spawn_point_keys. map_of sp k = None"
  shows "\<exists>k. spawn_point_from_config env (VDict d) = Inl (KeyError k)"
  using assms
  by (auto simp: spawn_point_from_config_def spawn_point_keys_def ebind_def split: option.splits)

lemma spawn_point_from_config_complete:
  assumes "map_of d ''spawn_point'' = Some (VDict sp)"
    and "map_of sp ''x'' = Some x" "map_of sp ''y'' = Some y" "map_of sp ''z'' = Some z"
    and "map_of sp ''roll'' = Some roll" "map_of sp ''pitch'' = Some pitch"
    and "map_of sp ''yaw'' = Some yaw"
  shows "spawn_point_from_config env (VDict d) = create_spawn_point env x y z roll pitch yaw"
  using assms by (simp add: spawn_point_from_config_def ebind_def)

text \<open>
  Claim C1, as amended. For a vehicle whose config entry has a spawn point object and
  whose launch file parameter is absent or not usable, all six of x, y, z, roll, pitch and
  yaw are required: when one of them is missing the \<^verbatim>\<open>KeyError\<close> is logged and the
  request asks for a random pose; when all six are there and roll, pitch and yaw are
  numbers that \<^verbatim>\<open>math.radians\<close> converts to floats that are not infinite, the request
  carries exactly that pose. No key has a default.
\<close>

theorem config_spawn_point_mandatory:
  assumes ty: "subscript vehicle ''type'' = Inr ty"
    and ident: "subscript vehicle ''id'' = Inr (VStr s)"
    and sp: "subscript vehicle ''spawn_point'' = Inr (VDict sp)"
    and no: "override_pose env (get_param_or_None env (''~spawn_point_'' @ s)) = None"
  shows
    "((\<exists>k\<in>set spawn_point_keys. map_of sp k = None) \<longrightarrow>
        (\<exists>w'. vehicle_request env vehicle w =
           (Inr \<lparr>req_type = ty, req_id = VStr s, attach_to = VInt 0, transform = empty_pose,
                 random_pose = True, attributes = []\<rparr>, w') \<and>
           (\<exists>k. Log Err (ConfigSpawnPointMissing (VStr s) (KeyError k)) \<in> set (trace w')))) \<and>
     (map_of sp ''x'' = Some x \<and> map_of sp ''y'' = Some y \<and> map_of sp ''z'' = Some z \<and>
      map_of sp ''roll'' = Some roll \<and> map_of sp ''pitch'' = Some pitch \<and>
      map_of sp ''yaw'' = Some yaw \<and>
      number roll = Inr r \<and> number pitch = Inr p \<and> number yaw = Inr yw \<and>
      \<not> infinite_float r \<and> \<not> infinite_float p \<and> \<not> infinite_float yw \<longrightarrow>
        fst (vehicle_request env vehicle w) =
          Inr \<lparr>req_type = ty, req_id = VStr s, attach_to = VInt 0,
               transform = \<lparr>pos_x = x, pos_y = y, pos_z = z,
                            orientation = quaternion_from_euler_deg env r p yw\<rparr>,
               random_pose = False, attributes = []\<rparr>)"
proof -
  from subscript_Inr_dict [OF sp] obtain d where
    d: "vehicle = VDict d" "map_of d ''spawn_point'' = Some (VDict sp)" by blast
  let ?P = "get_param_or_None env (''~spawn_point_'' @ s)"
  from check_rejects [OF no] obtain e where e: "check_spawn_point_param env ?P = Inl e" by blast
  have 1: "\<exists>w'. vehicle_request env vehicle w =
           (Inr \<lparr>req_type = ty, req_id = VStr s, attach_to = VInt 0, transform = empty_pose,
                 random_pose = True, attributes = []\<rparr>, w') \<and>
           (\<exists>k. Log Err (ConfigSpawnPointMissing (VStr s) (KeyError k)) \<in> set (trace w'))"
    if "\<exists>k\<in>set spawn_point_keys. map_of sp k = None"
  proof -
    from spawn_point_from_config_missing [OF d(2) that] obtain k where
      "spawn_point_from_config env (VDict d) = Inl (KeyError k)" by blast
    with ty ident d e show ?thesis
      by (auto simp: vehicle_request_def resolve_spawn_point_def spawn_point_from_param_def log_def)
  qed
  have 2: "fst (vehicle_request env vehicle w) =
          Inr \<lparr>req_type = ty, req_id = VStr s, attach_to = VInt 0,
               transform = \<lparr>pos_x = x, pos_y = y, pos_z = z,
                            orientation = quaternion_from_euler_deg env r p yw\<rparr>,
               random_pose = False, attributes = []\<rparr>"
    if "map_of sp ''x'' = Some x" "map_of sp ''y'' = Some y" "map_of sp ''z'' = Some z"
      "map_of sp ''roll'' = Some roll" "map_of sp ''pitch'' = Some pitch"
      "map_of sp ''yaw'' = Some yaw"
      "number roll = Inr r" "number pitch = Inr p" "number yaw = Inr yw"
      "\<not> infinite_float r" "\<not> infinite_float p" "\<not> infinite_float yw"
  proof -
    from spawn_point_from_config_complete [OF d(2) that(1-6), of env] that(7-12)
    have "spawn_point_from_config env (VDict d) =
        Inr \<lparr>pos_x = x, pos_y = y, pos_z = z, orientation = quaternion_from_euler_deg env r p yw\<rparr>"
      by (simp add: create_spawn_point_def ebind_def)
    with ty ident d e show ?thesis
      by (auto simp: vehicle_request_def resolve_spawn_point_def spawn_point_from_param_def)
  qed
  from 1 2 show ?thesis by blast
qed


theorem config_spawn_point_mandatory_witness:
  "(\<exists>w'. vehicle_request sim ego_xyz node0 =
       (Inr \<lparr>req_type = VStr ''vehicle.tesla.model3'', req_id = VStr ''ego_vehicle'',
             attach_to = VInt 0, transform = empty_pose, random_pose = True, attributes = []\<rparr>, w') \<and>
       (\<exists>k. Log Err (ConfigSpawnPointMissing (VStr ''ego_vehicle'') (KeyError k)) \<in> set (trace w'))) \<and>
   fst (vehicle_request sim ego_placed node0) =
     Inr \<lparr>req_type = VStr ''vehicle.tesla.model3'', req_id = VStr ''ego_vehicle'',
          attach_to = VInt 0,
          transform = \<lparr>pos_x = VFloat (Finite 10), pos_y = VFloat (Finite 20),
                       pos_z = VFloat (Finite 30),
                       orientation = (Finite 0, Finite 0, Finite 180, Finite 1)\<rparr>,
          random_pose = False, attributes = []\<rparr>"
proof -
  have no: "override_pose sim (get_param_or_None sim (''~spawn_point_'' @ ''ego_vehicle'')) = None"
    by (rule sim_no_override)
  have f: "subscript ego_xyz ''type'' = Inr (VStr ''vehicle.tesla.model3'')"
    "subscript ego_xyz ''id'' = Inr (VStr ''ego_vehicle'')"
    "subscript ego_xyz ''spawn_point'' =
       Inr (VDict [(''x'', VFloat (Finite 10)), (''y'', VFloat (Finite 20)),
                   (''z'', VFloat (Finite 30))])"
    by (simp_all add: ego_xyz_def)
  have g: "subscript ego_placed ''spawn_point'' =
       Inr (VDict [(''x'', VFloat (Finite 10)), (''y'', VFloat (Finite 20)),
                   (''z'', VFloat (Finite 30)),
                   (''roll'', VInt 0), (''pitch'', VInt 0), (''yaw'', VFloat (Finite 180))])"
    by (simp add: ego_placed_def)
  from config_spawn_point_mandatory [OF f no, where w = node0]
  have 1: "\<exists>w'. vehicle_request sim ego_xyz node0 =
       (Inr \<lparr>req_type = VStr ''vehicle.tesla.model3'', req_id = VStr ''ego_vehicle'',
             attach_to = VInt 0, transform = empty_pose, random_pose = True, attributes = []\<rparr>, w') \<and>
       (\<exists>k. Log Err (ConfigSpawnPointMissing (VStr ''ego_vehicle'') (KeyError k)) \<in> set (trace w'))"
    by (simp add: spawn_point_keys_def)
  from config_spawn_point_mandatory [OF ego_placed_fields g no, where w = node0
      and x = "VFloat (Finite 10)" and y = "VFloat (Finite 20)" and z = "VFloat (Finite 30)"
      and roll = "VInt 0" and pitch = "VInt 0" and yaw = "VFloat (Finite 180)"
      and r = "Finite 0" and p = "Finite 0" and yw = "Finite 180"]
  have 2: "fst (vehicle_request sim ego_placed node0) =
     Inr \<lparr>req_type = VStr ''vehicle.tesla.model3'', req_id = VStr ''ego_vehicle'',
          attach_to = VInt 0,
          transform = \<lparr>pos_x = VFloat (Finite 10), pos_y = VFloat (Finite 20),
                       pos_z = VFloat (Finite 30),
                       orientation = (Finite 0, Finite 0, Finite 180, Finite 1)\<rparr>,
          random_pose = False, attributes = []\<rparr>"
    by (simp add: sim_def)
  from 1 2 show ?thesis by blast
qed

text \<open>
  Claim C1 as stated fails: a config spawn point with x, y and z and without roll, pitch
  and yaw is not completed with zeros. Reading \<^verbatim>\<open>vehicle["spawn_point"]["roll"]\<close>
  raises \<^verbatim>\<open>KeyError\<close> and the vehicle is placed at random.
\<close>

theorem config_defaults_counterexample:
  "vehicle_request sim ego_xyz node0 =
     (Inr \<lparr>req_type = VStr ''vehicle.tesla.model3'', req_id = VStr ''ego_vehicle'',
           attach_to = VInt 0, transform = empty_pose, random_pose = True, attributes = []\<rparr>,
      node0\<lparr>trace := [Log Err (ConfigSpawnPointMissing (VStr ''ego_vehicle'') (KeyError ''roll'')),
                       Log Info SpawnPointRandom]\<rparr>)"
  by (simp add: vehicle_request_def resolve_spawn_point_def spawn_point_from_param_def
      spawn_point_from_config_def ego_xyz_def sim_def node0_def get_param_or_None_def log_def
      ebind_def)

section \<open>The spawn loop of a vehicle\<close>

lemma call_spawn_object_eq:
  "call_spawn_object env req w =
     (fst (spawn_object_service env req (backend w)),
      w\<lparr>backend := snd (spawn_object_service env req (backend w)),
        trace := trace w @ [SpawnObject req]\<rparr>)"
  by (simp add: call_spawn_object_def split: prod.splits)

lemma answer_0: "answer env req 0 b = fst (spawn_object_service env req b)"
  by (simp add: answer_def)

lemma answer_Suc:
  "answer env req (Suc i) b = answer env req i (snd (spawn_object_service env req b))"
  by (simp add: answer_def)

lemma spawn_player_accepted:
  assumes "\<forall>i<k. \<exists>r. answer env req i (backend w) = Inr r \<and> resp_id r = - 1"
    and "answer env req k (backend w) = Inr r" "resp_id r \<noteq> - 1"
  shows "spawn_player env vehicle req spawned w =
     Some (player_spawned env vehicle r spawned
       (w\<lparr>backend := backend_after env req (Suc k) (backend w),
          trace := trace w @ replicate (Suc k) (SpawnObject req)\<rparr>))"
  using assms
proof (induction k arbitrary: w)
  case 0
  then show ?case
    by (subst spawn_player.simps) (simp add: call_spawn_object_eq answer_0)
next
  case (Suc k)
  let ?w1 = "w\<lparr>backend := snd (spawn_object_service env req (backend w)),
        trace := trace w @ [SpawnObject req]\<rparr>"
  from Suc.prems(1) obtain r0 where r0: "answer env req 0 (backend w) = Inr r0" "resp_id r0 = - 1"
    by auto
  have a: "\<forall>i<k. \<exists>r. answer env req i (backend ?w1) = Inr r \<and> resp_id r = - 1"
    using Suc.prems(1) by (auto simp: answer_Suc [symmetric])
  have b: "answer env req k (backend ?w1) = Inr r"
    using Suc.prems(2) by (simp add: answer_Suc)
  have "spawn_player env vehicle req spawned w = spawn_player env vehicle req spawned ?w1"
    using r0 by (subst spawn_player.simps) (simp add: call_spawn_object_eq answer_0)
  also have "\<dots> = Some (player_spawned env vehicle r spawned
       (?w1\<lparr>backend := backend_after env req (Suc k) (backend ?w1),
          trace := trace ?w1 @ replicate (Suc k) (SpawnObject req)\<rparr>))"
    by (rule Suc.IH [OF a b Suc.prems(3)])
  finally show ?case by (simp add: replicate_app_Cons_same)
qed

lemma spawn_player_never:
  assumes "spawn_player env vehicle req spawned w = Some y"
  shows "\<not> (\<forall>i. \<exists>r. answer env req i (backend w) = Inr r \<and> resp_id r = - 1)"
proof (rule spawn_player.raw_induct
    [where P = "\<lambda>env vehicle req spawned w y.
        \<not> (\<forall>i. \<exists>r. answer env req i (backend w) = Inr r \<and> resp_id r = - 1)", OF _ assms])
  fix sp :: "'a env \<Rightarrow> pyval \<Rightarrow> spawn_request \<Rightarrow> int list \<Rightarrow> 'a node
      \<Rightarrow> ((exn + int list) \<times> 'a node) option"
    and env vehicle req spawned w y
  assume IH: "\<And>env vehicle req spawned w y. sp env vehicle req spawned w = Some y \<Longrightarrow>
      \<not> (\<forall>i. \<exists>r. answer env req i (backend w) = Inr r \<and> resp_id r = - 1)"
    and step: "(case call_spawn_object env req w of
        (Inl e, w') \<Rightarrow> Some (Inl e, w')
      | (Inr response, w') \<Rightarrow>
          if resp_id response \<noteq> - 1
          then Some (player_spawned env vehicle response spawned w')
          else sp env vehicle req spawned w') = Some y"
  show "\<not> (\<forall>i. \<exists>r. answer env req i (backend w) = Inr r \<and> resp_id r = - 1)"
  proof
    assume all: "\<forall>i. \<exists>r. answer env req i (backend w) = Inr r \<and> resp_id r = - 1"
    let ?w1 = "w\<lparr>backend := snd (spawn_object_service env req (backend w)),
        trace := trace w @ [SpawnObject req]\<rparr>"
    from all obtain r0 where r0: "answer env req 0 (backend w) = Inr r0" "resp_id r0 = - 1"
      by blast
    with step have "sp env vehicle req spawned ?w1 = Some y"
      by (simp add: call_spawn_object_eq answer_0)
    from IH [OF this]
    have "\<not> (\<forall>i. \<exists>r. answer env req i (backend ?w1) = Inr r \<and> resp_id r = - 1)" .
    moreover have "\<forall>i. \<exists>r. answer env req i (backend ?w1) = Inr r \<and> resp_id r = - 1"
      using all by (auto simp: answer_Suc [symmetric])
    ultimately show False by blast
  qed
qed

lemma player_spawned_players:
  "player_spawned env vehicle r spawned w = (Inr ps, w') \<Longrightarrow> ps = spawned @ [resp_id r]"
  by (auto simp: player_spawned_def split: sum.splits if_splits prod.splits)


text \<open>
  Claim C4. In normal mode, once the request of a vehicle is built, it is sent again and
  again: when the simulator answers the first \<open>k\<close> calls with the identifier -1 and the
  next one with another identifier, exactly \<open>k + 1\<close> equal requests have been sent,
  whatever \<open>k\<close> is, and that identifier is the one appended to the players with which
  the loop over the vehicles goes on (when setting up the vehicle's sensors raises
  nothing). When the simulator answers -1 for ever, the loop never ends, and neither
  does \<^verbatim>\<open>setup_vehicles\<close>.
\<close>

theorem spawn_retried_until_accepted:
  assumes normal: "\<not> is_True (spawn_sensors_only w)"
    and req: "vehicle_request env vehicle w = (Inr req, w1)"
  shows
    "((\<forall>i<k. \<exists>r0. answer env req i (backend w1) = Inr r0 \<and> resp_id r0 = - 1) \<and>
      answer env req k (backend w1) = Inr r \<and> resp_id r \<noteq> - 1 \<longrightarrow>
        spawn_player env vehicle req spawned w1 =
          Some (player_spawned env vehicle r spawned
            (w1\<lparr>backend := backend_after env req (Suc k) (backend w1),
                trace := trace w1 @ replicate (Suc k) (SpawnObject req)\<rparr>)) \<and>
        (\<forall>ps w2. player_spawned env vehicle r spawned
            (w1\<lparr>backend := backend_after env req (Suc k) (backend w1),
                trace := trace w1 @ replicate (Suc k) (SpawnObject req)\<rparr>) = (Inr ps, w2) \<longrightarrow>
           ps = spawned @ [resp_id r] \<and>
           vehicles_loop env (vehicle # rest) spawned w =
             vehicles_loop env rest (spawned @ [resp_id r]) w2)) \<and>
     ((\<forall>i. \<exists>r0. answer env req i (backend w1) = Inr r0 \<and> resp_id r0 = - 1) \<longrightarrow>
        spawn_player env vehicle req spawned w1 = None \<and>
        vehicles_loop env (vehicle # rest) spawned w = None)"
proof -
  have v: "vehicles_loop env (vehicle # rest) spawned w =
      (case spawn_player env vehicle req spawned w1 of
         None \<Rightarrow> None
       | Some (Inl e, w') \<Rightarrow> Some (Inl e, w')
       | Some (Inr ps, w') \<Rightarrow> vehicles_loop env rest ps w')"
    using normal req by (simp add: spawn_vehicle_def)
  have 1: "spawn_player env vehicle req spawned w1 =
          Some (player_spawned env vehicle r spawned
            (w1\<lparr>backend := backend_after env req (Suc k) (backend w1),
                trace := trace w1 @ replicate (Suc k) (SpawnObject req)\<rparr>)) \<and>
        (\<forall>ps w2. player_spawned env vehicle r spawned
            (w1\<lparr>backend := backend_after env req (Suc k) (backend w1),
                trace := trace w1 @ replicate (Suc k) (SpawnObject req)\<rparr>) = (Inr ps, w2) \<longrightarrow>
           ps = spawned @ [resp_id r] \<and>
           vehicles_loop env (vehicle # rest) spawned w =
             vehicles_loop env rest (spawned @ [resp_id r]) w2)"
    if a: "\<forall>i<k. \<exists>r0. answer env req i (backend w1) = Inr r0 \<and> resp_id r0 = - 1"
      and b: "answer env req k (backend w1) = Inr r" and c: "resp_id r \<noteq> - 1"
  proof -
    note s = spawn_player_accepted [OF a b c, of vehicle spawned]
    show ?thesis
    proof (intro conjI allI impI)
      show "spawn_player env vehicle req spawned w1 =
          Some (player_spawned env vehicle r spawned
            (w1\<lparr>backend := backend_after env req (Suc k) (backend w1),
                trace := trace w1 @ replicate (Suc k) (SpawnObject req)\<rparr>))" by (rule s)
    next
      fix ps w2
      assume p: "player_spawned env vehicle r spawned
            (w1\<lparr>backend := backend_after env req (Suc k) (backend w1),
                trace := trace w1 @ replicate (Suc k) (SpawnObject req)\<rparr>) = (Inr ps, w2)"
      then show ps: "ps = spawned @ [resp_id r]" by (rule player_spawned_players)
      from v s p ps show "vehicles_loop env (vehicle # rest) spawned w =
             vehicles_loop env rest (spawned @ [resp_id r]) w2" by simp
    qed
  qed
  have 2: "spawn_player env vehicle req spawned w1 = None \<and>
        vehicles_loop env (vehicle # rest) spawned w = None"
    if "\<forall>i. \<exists>r0. answer env req i (backend w1) = Inr r0 \<and> resp_id r0 = - 1"
  proof -
    have "spawn_player env vehicle req spawned w1 = None"
    proof (cases "spawn_player env vehicle req spawned w1")
      case (Some y)
      from spawn_player_never [OF this] that show ?thesis by blast
    qed simp
    with v show ?thesis by simp
  qed
  from 1 2 show ?thesis by blast
qed

theorem spawn_retried_until_accepted_witness:
  "setup_vehicles sim [ego] node0 =
     Some (Inr [42],
       node0\<lparr>backend := 3,
             trace := [Log Info SpawnPointRandom, SpawnObject ego_random_request,
                       SpawnObject ego_random_request, SpawnObject ego_random_request,
                       Log Warn NoSensorsField]\<rparr>)"
proof -
  let ?w1 = "node0\<lparr>trace := [Log Info SpawnPointRandom]\<rparr>"
  let ?r = "\<lparr>resp_id = 42, error_string = []\<rparr>"
  have normal: "\<not> is_True (spawn_sensors_only node0)"
    by (simp add: node0_def is_True_def)
  have req: "vehicle_request sim ego node0 = (Inr ego_random_request, ?w1)"
    using ego_request by (simp add: ego_random_request_def)
  have b0: "backend ?w1 = 0" by (simp add: node0_def)
  have a0: "answer sim ego_random_request 0 0 = Inr \<lparr>resp_id = - 1, error_string = ''not ready''\<rparr>"
    by (simp add: answer_def sim_def)
  have a1: "answer sim ego_random_request (Suc 0) 0 = Inr \<lparr>resp_id = - 1, error_string = ''not ready''\<rparr>"
    by (simp add: answer_def sim_def)
  have a2: "answer sim ego_random_request (Suc (Suc 0)) 0 = Inr ?r"
    by (simp add: answer_def sim_def)
  have refused: "\<forall>i<Suc (Suc 0). \<exists>r0. answer sim ego_random_request i (backend ?w1) = Inr r0 \<and> resp_id r0 = - 1"
    using a0 a1 b0 by (auto simp: less_Suc_eq)
  have accepted: "answer sim ego_random_request (Suc (Suc 0)) (backend ?w1) = Inr ?r \<and> resp_id ?r \<noteq> - 1"
    using a2 b0 by simp
  have after: "backend_after sim ego_random_request (Suc (Suc (Suc 0))) 0 = 3"
    by (simp add: sim_def)
  have p: "player_spawned sim ego ?r []
      (?w1\<lparr>backend := backend_after sim ego_random_request (Suc (Suc (Suc 0))) (backend ?w1),
           trace := trace ?w1 @ replicate (Suc (Suc (Suc 0))) (SpawnObject ego_random_request)\<rparr>) =
     (Inr [42], node0\<lparr>backend := 3,
             trace := [Log Info SpawnPointRandom, SpawnObject ego_random_request,
                       SpawnObject ego_random_request, SpawnObject ego_random_request,
                       Log Warn NoSensorsField]\<rparr>)"
    using after by (simp add: player_spawned_def ego_def node0_def log_def)
  from spawn_retried_until_accepted [OF normal req, where k = "Suc (Suc 0)" and r = ?r
      and spawned = "[]" and rest = "[]"] refused accepted p
  have "vehicles_loop sim [ego] [] node0 =
      vehicles_loop sim [] ([] @ [resp_id ?r])
        (node0\<lparr>backend := 3,
             trace := [Log Info SpawnPointRandom, SpawnObject ego_random_request,
                       SpawnObject ego_random_request, SpawnObject ego_random_request,
                       Log Warn NoSensorsField]\<rparr>)"
    by blast
  then show ?thesis by (simp add: setup_vehicles_def)
qed

section \<open>Sensors-only mode and the \<^verbatim>\<open>carla_id\<close> of a vehicle\<close>

text \<open>
  The service calls, \<^verbatim>\<open>setup_sensors\<close>, the classification and the lookup by role
  neither change the parameter \<^verbatim>\<open>spawn_sensors_only\<close> nor log the error of line 121.
\<close>

lemma quiet_refl [simp]: "quiet w w"
  by (simp add: quiet_def)



lemma quiet_fields [simp]:
  "quiet w (v\<lparr>vehicles_sensors := x\<rparr>) = quiet w v"
  "quiet w (v\<lparr>global_sensors := y\<rparr>) = quiet w v"
  "quiet w (v\<lparr>players := z\<rparr>) = quiet w v"
  by (simp_all add: quiet_def)








lemma map_of_dict_set [simp]: "map_of (dict_set d k x) k = Some x"
proof (cases "map_of d k")
  case None
  then show ?thesis by (simp add: dict_set_def map_add_def)
next
  case (Some y)
  have "map_of d k \<noteq> None \<Longrightarrow>
      map_of (map (\<lambda>kv. if fst kv = k then (k, x) else kv) d) k = Some x"
    by (induction d) (auto split: if_splits)
  with Some show ?thesis by (simp add: dict_set_def)
qed











section \<open>Sensors with the same name\<close>

lemma same_calls_refl [simp]: "same_calls w w"
  by (simp add: same_calls_def)

lemma same_calls_log [simp]: "same_calls (log l m w) v = same_calls w v"
  by (simp add: same_calls_def log_def)

lemma map_of_dict_remove [simp]: "map_of (dict_remove k d) k = None"
  by (induction d) (auto simp: dict_remove_def)

lemma pop_subscript: "pop v k = Inr (x, v') \<Longrightarrow> subscript v' k = Inl (KeyError k)"
  by (cases v) (auto split: option.splits)

lemma spawn_sensor_duplicate:
  assumes "sensor_name env spec = Some n" "n \<in> set names"
  shows "spawn_sensor env att spec names cur w = (Inl (KeyError ''id''), names, Some n, w)"
  using assms
  by (auto simp: spawn_sensor_def sensor_name_def Let_def pop_subscript split: sum.splits)

lemma spawn_sensor_names:
  assumes "spawn_sensor env att spec names cur w = (r, names', cur', w')"
  shows "set names \<subseteq> set names' \<and> (cur \<noteq> None \<longrightarrow> cur' \<noteq> None) \<and>
         (\<forall>n. sensor_name env spec = Some n \<longrightarrow> n \<in> set names' \<and> cur' \<noteq> None)"
  using assms
  by (auto simp: spawn_sensor_def sensor_name_def Let_def split: sum.splits prod.splits if_splits)

lemma spawn_sensor_same_calls:
  assumes "same_calls w v" "(cur = None) = (cur2 = None)"
    and "spawn_sensor env att spec names cur w = (r, names', cur', w')"
    and "spawn_sensor env att spec names cur2 v = (r2, names2, cur2', v')"
  shows "r2 = r \<and> names2 = names' \<and> same_calls w' v' \<and> (cur' = None) = (cur2' = None)"
  using assms
  by (auto simp: spawn_sensor_def Let_def same_calls_def call_spawn_object_eq
      split: sum.splits prod.splits if_splits)


lemma sensors_loop_same_calls:
  assumes "same_calls w v" "(cur = None) = (cur2 = None)"
  shows "fst (sensors_loop env att specs actors names cur w) =
           fst (sensors_loop env att specs actors names cur2 v) \<and>
         same_calls (snd (sensors_loop env att specs actors names cur w))
                    (snd (sensors_loop env att specs actors names cur2 v))"
  using assms
proof (induction specs arbitrary: actors names cur cur2 w v)
  case Nil
  then show ?case by simp
next
  case (Cons spec specs)
  obtain r names' cur' w' where 1: "spawn_sensor env att spec names cur w = (r, names', cur', w')"
    by (cases "spawn_sensor env att spec names cur w") auto
  obtain r2 names2 cur2' v' where 2: "spawn_sensor env att spec names cur2 v = (r2, names2, cur2', v')"
    by (cases "spawn_sensor env att spec names cur2 v") auto
  from spawn_sensor_same_calls [OF Cons.prems 1 2]
  have e: "r2 = r" "names2 = names'" "same_calls w' v'" "(cur' = None) = (cur2' = None)" by simp_all
  show ?case
  proof (cases r)
    case (Inr actor_id)
    with 1 2 e Cons.IH [OF e(3,4)] show ?thesis by simp
  next
    case (Inl ex)
    show ?thesis
    proof (cases cur')
      case None
      with e have "cur2' = None" by simp
      with None Inl 1 2 e show ?thesis by simp
    next
      case (Some c)
      with e obtain c2 where c2: "cur2' = Some c2" by (cases cur2') auto
      let ?m = "\<lambda>n. if is_KeyError ex then SensorMissingAttribute n ex else SensorNotSpawned n ex"
      have "same_calls (log Err (?m c) w') (log Err (?m c2) v')"
        using e(3) by (simp add: same_calls_def log_def)
      from Cons.IH [OF this, of "Some c" "Some c2" actors names']
      show ?thesis using Some c2 Inl 1 2 e by simp
    qed
  qed
qed

lemma sensors_loop_duplicate:
  assumes n: "sensor_name env spec = Some n"
    and earlier: "n \<in> set names \<or> (\<exists>x\<in>set pre. sensor_name env x = Some n)"
    and inv: "names \<noteq> [] \<longrightarrow> cur \<noteq> None"
  shows "fst (sensors_loop env att (pre @ spec # post) actors names cur w) =
           fst (sensors_loop env att (pre @ post) actors names cur w) \<and>
         same_calls (snd (sensors_loop env att (pre @ spec # post) actors names cur w))
                    (snd (sensors_loop env att (pre @ post) actors names cur w))"
  using earlier inv
proof (induction pre arbitrary: actors names cur w)
  case Nil
  then have in_names: "n \<in> set names" by simp
  with Nil.prems obtain c where c: "cur = Some c" by (cases cur) auto
  let ?w = "log Err (SensorMissingAttribute n (KeyError ''id'')) w"
  have "sensors_loop env att (spec # post) actors names cur w =
      sensors_loop env att post actors names (Some n) ?w"
    by (simp add: spawn_sensor_duplicate [OF n in_names])
  moreover have "same_calls ?w w" by simp
  from sensors_loop_same_calls [OF this, of "Some n" cur env att post actors names] c
  have "fst (sensors_loop env att post actors names (Some n) ?w) =
           fst (sensors_loop env att post actors names cur w) \<and>
         same_calls (snd (sensors_loop env att post actors names (Some n) ?w))
                    (snd (sensors_loop env att post actors names cur w))" by simp
  ultimately show ?case by simp
next
  case (Cons x pre)
  obtain r names' cur' w' where 1: "spawn_sensor env att x names cur w = (r, names', cur', w')"
    by (cases "spawn_sensor env att x names cur w") auto
  note f = spawn_sensor_names [OF 1]
  have earlier': "n \<in> set names' \<or> (\<exists>x\<in>set pre. sensor_name env x = Some n)"
    using Cons.prems(1) f by auto
  have inv': "names' \<noteq> [] \<longrightarrow> cur' \<noteq> None"
  proof
    assume ne: "names' \<noteq> []"
    show "cur' \<noteq> None"
    proof (cases "names = []")
      case False
      with Cons.prems(2) f show ?thesis by simp
    next
      case True
      with ne 1 show ?thesis
        by (auto simp: spawn_sensor_def Let_def split: sum.splits prod.splits if_splits)
    qed
  qed
  show ?case
  proof (cases r)
    case (Inr actor_id)
    with 1 Cons.IH [OF earlier' inv'] show ?thesis by simp
  next
    case (Inl ex)
    show ?thesis
    proof (cases cur')
      case None
      with Inl 1 show ?thesis by simp
    next
      case (Some c)
      with Inl 1 Cons.IH [OF earlier' inv'] show ?thesis by simp
    qed
  qed
qed

text \<open>
  Claim C7. In one call of \<^verbatim>\<open>setup_sensors\<close>, a sensor whose name
  \<^verbatim>\<open>type + "/" + id\<close> is that of an earlier sensor of the list is skipped: the call
  returns what it returns on the list without this sensor (the identifiers of the
  sensors accepted before and after it), and sends the same requests to the simulator,
  which it leaves in the same state. Only the log differs.
\<close>

theorem duplicate_sensor_skipped:
  assumes "sensor_name env spec = Some n"
    and "\<exists>x\<in>set pre. sensor_name env x = Some n"
  shows "fst (setup_sensors env (VList (pre @ spec # post)) att w) =
           fst (setup_sensors env (VList (pre @ post)) att w) \<and>
         backend (snd (setup_sensors env (VList (pre @ spec # post)) att w)) =
           backend (snd (setup_sensors env (VList (pre @ post)) att w)) \<and>
         calls (trace (snd (setup_sensors env (VList (pre @ spec # post)) att w))) =
           calls (trace (snd (setup_sensors env (VList (pre @ post)) att w)))"
  using sensors_loop_duplicate [OF assms(1), of "[]" pre None att post "[]" w] assms(2)
  by (simp add: setup_sensors_def same_calls_def)


lemma setup_two_sensors:
  "setup_sensors sim (VList [gnss, imu]) (VInt 7) (node0\<lparr>backend := 2\<rparr>) =
     (Inr [42, 43],
      node0\<lparr>backend := 4, trace := [SpawnObject gnss_request, SpawnObject imu_request]\<rparr>)"
  by (simp add: setup_sensors_def spawn_sensor_def sensor_transform_def create_spawn_point_def
      ebind_def str_def dict_remove_def call_spawn_object_def sim_def gnss_def imu_def node0_def
      gnss_request_def imu_request_def Let_def)

theorem duplicate_sensor_skipped_witness:
  "fst (setup_sensors sim (VList [gnss, gnss, imu]) (VInt 7) (node0\<lparr>backend := 2\<rparr>)) =
     Inr [42, 43] \<and>
   backend (snd (setup_sensors sim (VList [gnss, gnss, imu]) (VInt 7) (node0\<lparr>backend := 2\<rparr>))) = 4 \<and>
   calls (trace (snd (setup_sensors sim (VList [gnss, gnss, imu]) (VInt 7) (node0\<lparr>backend := 2\<rparr>)))) =
     [SpawnObject gnss_request, SpawnObject imu_request]"
proof -
  have n: "sensor_name sim gnss = Some ''sensor.other.gnss/gnss''"
    by (simp add: sensor_name_def gnss_def str_def dict_remove_def)
  then have e: "\<exists>x\<in>set [gnss]. sensor_name sim x = Some ''sensor.other.gnss/gnss''" by simp
  from duplicate_sensor_skipped [OF n e, of "[imu]" "VInt 7" "node0\<lparr>backend := 2\<rparr>"]
  show ?thesis by (simp add: setup_two_sensors)
qed

section \<open>Which values of \<^verbatim>\<open>spawn_sensors_only\<close> select sensors-only mode\<close>

lemma same_mode_refl [simp]: "same_mode w w"
  by (simp add: same_mode_def)

lemma same_mode_trans: "same_mode w v \<Longrightarrow> same_mode v u \<Longrightarrow> same_mode w u"
  by (simp add: same_mode_def)

lemma same_mode_log [simp]: "same_mode w (log l m v) = same_mode w v"
  by (simp add: same_mode_def log_def lookups_def)

lemma same_mode_log_left [simp]: "same_mode (log l m w) v = same_mode w v"
  by (simp add: same_mode_def log_def lookups_def)

lemma same_mode_vehicles_sensors [simp]:
  "same_mode w (v\<lparr>vehicles_sensors := x\<rparr>) = same_mode w v"
  by (simp add: same_mode_def)

lemma same_mode_global_sensors [simp]:
  "same_mode w (v\<lparr>global_sensors := x\<rparr>) = same_mode w v"
  by (simp add: same_mode_def)

lemma same_mode_players [simp]:
  "same_mode w (v\<lparr>players := x\<rparr>) = same_mode w v"
  by (simp add: same_mode_def)

lemma call_spawn_object_mode:
  "call_spawn_object env req w = (r, w') \<Longrightarrow> same_mode w w'"
  by (auto simp: call_spawn_object_eq same_mode_def lookups_def)

lemma spawn_sensor_mode:
  "spawn_sensor env att spec names cur w = (r, names', cur', w') \<Longrightarrow> same_mode w w'"
  by (auto simp: spawn_sensor_def Let_def split: sum.splits prod.splits if_splits
      dest: call_spawn_object_mode)

lemma sensors_loop_mode:
  "sensors_loop env att specs actors names cur w = (r, w') \<Longrightarrow> same_mode w w'"
proof (induction specs arbitrary: actors names cur w)
  case Nil
  then show ?case by simp
next
  case (Cons spec specs)
  obtain r1 names1 cur1 w1 where 1: "spawn_sensor env att spec names cur w = (r1, names1, cur1, w1)"
    by (cases "spawn_sensor env att spec names cur w") auto
  note m = spawn_sensor_mode [OF 1]
  show ?case
  proof (cases r1)
    case (Inr actor_id)
    with Cons.prems 1 have "sensors_loop env att specs (actors @ [actor_id]) names1 cur1 w1 = (r, w')"
      by simp
    from same_mode_trans [OF m Cons.IH [OF this]] show ?thesis .
  next
    case (Inl ex)
    show ?thesis
    proof (cases cur1)
      case None
      with Inl Cons.prems 1 m show ?thesis by auto
    next
      case (Some c)
      with Inl Cons.prems 1 obtain msg where
        "sensors_loop env att specs actors names1 (Some c) (log Err msg w1) = (r, w')" by auto
      from Cons.IH [OF this] have "same_mode (log Err msg w1) w'" .
      moreover have "same_mode w (log Err msg w1)" using m by simp
      ultimately show ?thesis by (rule same_mode_trans [rotated])
    qed
  qed
qed

lemma setup_sensors_mode:
  "setup_sensors env sensors att w = (r, w') \<Longrightarrow> same_mode w w'"
  by (auto simp: setup_sensors_def split: sum.splits dest: sensors_loop_mode)

lemma vehicle_request_mode:
  "vehicle_request env vehicle w = (r, w') \<Longrightarrow> same_mode w w'"
  by (auto simp: vehicle_request_def resolve_spawn_point_def spawn_point_from_param_def
      split: sum.splits prod.splits if_splits pyval.splits option.splits)

lemma player_spawned_mode:
  "player_spawned env vehicle response spawned w = (r, w') \<Longrightarrow> same_mode w w'"
  by (auto simp: player_spawned_def split: sum.splits prod.splits if_splits
      dest: setup_sensors_mode)


lemma spawn_player_mode:
  assumes "spawn_player env vehicle req spawned w = Some y"
  shows "same_mode w (snd y)"
proof (rule spawn_player.raw_induct
    [where P = "\<lambda>env vehicle req spawned w y. same_mode w (snd y)", OF _ assms])
  fix sp :: "'a env \<Rightarrow> pyval \<Rightarrow> spawn_request \<Rightarrow> int list \<Rightarrow> 'a node
      \<Rightarrow> ((exn + int list) \<times> 'a node) option"
    and env vehicle req spawned w y
  assume IH: "\<And>env vehicle req spawned w y. sp env vehicle req spawned w = Some y \<Longrightarrow>
      same_mode w (snd y)"
    and step: "(case call_spawn_object env req w of
        (Inl e, w') \<Rightarrow> Some (Inl e, w')
      | (Inr response, w') \<Rightarrow>
          if resp_id response \<noteq> - 1
          then Some (player_spawned env vehicle response spawned w')
          else sp env vehicle req spawned w') = Some y"
  obtain r1 w1 where c: "call_spawn_object env req w = (r1, w1)"
    by (cases "call_spawn_object env req w")
  note m = call_spawn_object_mode [OF c]
  show "same_mode w (snd y)"
  proof (cases r1)
    case (Inl e)
    with step c m show ?thesis by auto
  next
    case (Inr response)
    show ?thesis
    proof (cases "resp_id response \<noteq> - 1")
      case True
      with step c Inr have "player_spawned env vehicle response spawned w1 = y" by simp
      then have "same_mode w1 (snd y)"
        using player_spawned_mode [of env vehicle response spawned w1 "fst y" "snd y"] by simp
      with m show ?thesis by (rule same_mode_trans)
    next
      case False
      with step c Inr have "sp env vehicle req spawned w1 = Some y" by simp
      from same_mode_trans [OF m IH [OF this]] show ?thesis .
    qed
  qed
qed

lemma spawn_vehicle_mode:
  assumes "spawn_vehicle env vehicle spawned w = Some (r, w')"
  shows "same_mode w w'"
proof -
  obtain r1 w1 where v: "vehicle_request env vehicle w = (r1, w1)"
    by (cases "vehicle_request env vehicle w")
  note m = vehicle_request_mode [OF v]
  show ?thesis
  proof (cases r1)
    case (Inl e)
    with assms v m show ?thesis by (simp add: spawn_vehicle_def)
  next
    case (Inr req)
    with assms v have "spawn_player env vehicle req spawned w1 = Some (r, w')"
      by (simp add: spawn_vehicle_def)
    from spawn_player_mode [OF this] m show ?thesis by (auto intro: same_mode_trans)
  qed
qed

lemma vehicles_loop_normal:
  assumes "\<not> is_True (spawn_sensors_only w)"
  shows "vehicles_loop env (vehicle # rest) spawned w =
     (case spawn_vehicle env vehicle spawned w of
        None \<Rightarrow> None
      | Some (Inl e, w') \<Rightarrow> Some (Inl e, w')
      | Some (Inr ps, w') \<Rightarrow> vehicles_loop env rest ps w')"
  using assms by simp

lemma vehicles_loop_mode:
  assumes "\<not> is_True (spawn_sensors_only w)"
    and "vehicles_loop env vehicles spawned w = Some (r, w')"
  shows "same_mode w w'"
  using assms
proof (induction vehicles arbitrary: spawned w)
  case Nil
  then show ?case by simp
next
  case (Cons vehicle rest)
  from Cons.prems obtain r1 w1 where s: "spawn_vehicle env vehicle spawned w = Some (r1, w1)"
    by (cases "spawn_vehicle env vehicle spawned w") (auto simp: vehicles_loop_normal)
  note m = spawn_vehicle_mode [OF s]
  show ?case
  proof (cases r1)
    case (Inl e)
    with Cons.prems s m show ?thesis by (simp add: vehicles_loop_normal)
  next
    case (Inr ps)
    with Cons.prems s have l: "vehicles_loop env rest ps w1 = Some (r, w')"
      by (simp add: vehicles_loop_normal)
    from m Cons.prems(1) have "\<not> is_True (spawn_sensors_only w1)" by (simp add: same_mode_def)
    from same_mode_trans [OF m Cons.IH [OF this l]] show ?thesis .
  qed
qed

lemma classify_loop_mode:
  "classify_loop objects sensors vehicles found w = (r, w') \<Longrightarrow>
     same_mode w w' \<and> r \<noteq> Inl ActorListMissing"
proof (induction objects arbitrary: sensors vehicles found w)
  case Nil
  then show ?case by auto
next
  case (Cons actor rest)
  show ?case
  proof (cases "subscript actor ''type''")
    case (Inl e)
    then have "e \<noteq> ActorListMissing" by (cases actor) (auto split: option.splits)
    with Inl Cons.prems show ?thesis by auto
  next
    case (Inr t)
    show ?thesis
    proof (cases "\<exists>ty. t = VStr ty")
      case False
      with Inr Cons.prems show ?thesis by (cases t) auto
    next
      case True
      then obtain ty where ty: "t = VStr ty" by blast
      obtain p ps where sp: "split (CHR ''.'') ty = p # ps"
        using split_nonempty [of "CHR ''.''" ty] by (cases "split (CHR ''.'') ty") auto
      from Cons.prems Inr ty sp
      consider
        "classify_loop rest (sensors @ [actor]) vehicles True w = (r, w')"
        | "classify_loop rest (sensors @ [actor]) vehicles found w = (r, w')"
        | "classify_loop rest sensors (vehicles @ [actor]) found w = (r, w')"
        | "classify_loop rest sensors vehicles found (log Warn (IgnoredType (VStr ty)) w) = (r, w')"
        by (auto split: if_splits)
      then show ?thesis
      proof cases
        case 1
        from Cons.IH [OF this] show ?thesis by simp
      next
        case 2
        from Cons.IH [OF this] show ?thesis by simp
      next
        case 3
        from Cons.IH [OF this] show ?thesis by simp
      next
        case 4
        from Cons.IH [OF this] show ?thesis by simp
      qed
    qed
  qed
qed


lemma subscript_error: "subscript v k = Inl e \<Longrightarrow> e \<noteq> ActorListMissing"
  by (cases v) (auto split: option.splits)

lemma iterate_error: "iterate v = Inl e \<Longrightarrow> e \<noteq> ActorListMissing"
  by (cases v) auto

text \<open>
  Claim C10. When the parameter \<^verbatim>\<open>spawn_sensors_only\<close> is anything but the boolean
  \<^verbatim>\<open>True\<close>, the run is a normal one: a readable file never makes \<^verbatim>\<open>spawn_objects\<close>
  raise the exception of line 96 for a missing actor list sensor, no lookup by role is
  sent, and the loop of \<^verbatim>\<open>setup_vehicles\<close> spawns each vehicle itself. A value that
  is true without being \<^verbatim>\<open>True\<close> still takes the first branch of the classification,
  which sets the flag for \<^verbatim>\<open>sensor.pseudo.actor_list\<close>.
\<close>

theorem sensors_only_requires_True:
  assumes other: "spawn_sensors_only w \<noteq> VBool True"
  shows
    "(\<forall>j w'. objects_definition_file w = Some (Inr j) \<longrightarrow>
        spawn_objects env w \<noteq> Some (Inl ActorListMissing, w')) \<and>
     (\<forall>r w'. spawn_objects env w = Some (r, w') \<longrightarrow> lookups (trace w') = lookups (trace w)) \<and>
     vehicles_loop env (vehicle # rest) spawned w =
       (case spawn_vehicle env vehicle spawned w of
          None \<Rightarrow> None
        | Some (Inl e, w') \<Rightarrow> Some (Inl e, w')
        | Some (Inr ps, w') \<Rightarrow> vehicles_loop env rest ps w') \<and>
     (truthy (spawn_sensors_only w) \<and>
      subscript actor ''type'' = Inr (VStr ''sensor.pseudo.actor_list'') \<longrightarrow>
        classify_loop [actor] [] [] False w = (Inr ([actor], [], True), w))"
proof -
  from other have normal: "\<not> is_True (spawn_sensors_only w)" by (simp add: is_True_def)
  have run: "same_mode w w' \<and> (objects_definition_file w \<noteq> Some (Inl ActorListMissing) \<longrightarrow>
      r \<noteq> Inl ActorListMissing)"
    if so: "spawn_objects env w = Some (r, w')" for r w'
  proof (cases "objects_definition_file w")
    case None
    with so show ?thesis by (auto simp: spawn_objects_def)
  next
    case (Some f)
    show ?thesis
    proof (cases f)
      case (Inl e)
      with Some so show ?thesis by (auto simp: spawn_objects_def)
    next
      case (Inr j)
      show ?thesis
      proof (cases "ebind (subscript j ''objects'') iterate")
        case (Inl e)
        then have "e \<noteq> ActorListMissing"
          by (auto simp: ebind_def split: sum.splits dest: subscript_error iterate_error)
        with Inl Some Inr so show ?thesis by (auto simp: spawn_objects_def)
      next
        case objs: (Inr objects)
        obtain r1 w1 where c: "classify_loop objects [] [] False w = (r1, w1)"
          by (cases "classify_loop objects [] [] False w")
        note m1 = classify_loop_mode [OF c]
        then have n1: "\<not> is_True (spawn_sensors_only w1)"
          using normal by (simp add: same_mode_def)
        show ?thesis
        proof (cases r1)
          case (Inl e)
          with Some Inr objs c so m1 show ?thesis by (auto simp: spawn_objects_def)
        next
          case cl: (Inr res)
          obtain sensors vehicles found where res: "res = (sensors, vehicles, found)"
            by (cases res) auto
          obtain r2 w2 where g: "setup_sensors env (VList sensors) (VInt 0) w1 = (r2, w2)"
            by (cases "setup_sensors env (VList sensors) (VInt 0) w1")
          note m2 = same_mode_trans [OF conjunct1 [OF m1] setup_sensors_mode [OF g]]
          then have n2: "\<not> is_True (spawn_sensors_only w2)"
            using normal by (simp add: same_mode_def)
          show ?thesis
          proof (cases r2)
            case (Inl e)
            with Some Inr objs c cl res g so n1 m2 show ?thesis
              by (auto simp: spawn_objects_def)
          next
            case gs: (Inr ids)
            let ?w3 = "w2\<lparr>global_sensors := ids\<rparr>"
            have n3: "\<not> is_True (spawn_sensors_only ?w3)" using n2 by simp
            have m3: "same_mode w ?w3" using m2 by simp
            from Some Inr objs c cl res g gs so n1 n2
            obtain r4 w4 where v: "setup_vehicles env vehicles ?w3 = Some (r4, w4)"
              and out: "(r, w') = (case r4 of Inl e \<Rightarrow> (Inl (VehiclesFailed e), w4)
                                   | Inr ids' \<Rightarrow> (Inr (), w4\<lparr>players := ids'\<rparr>))"
              by (cases "setup_vehicles env vehicles ?w3")
                 (auto simp: spawn_objects_def split: sum.splits)
            from v have "vehicles_loop env vehicles [] ?w3 = Some (r4, w4)"
              by (simp add: setup_vehicles_def)
            from same_mode_trans [OF m3 vehicles_loop_mode [OF n3 this]]
            have m4: "same_mode w w4" .
            from out m4 show ?thesis by (cases r4) auto
          qed
        qed
      qed
    qed
  qed
  have a: "\<forall>j w'. objects_definition_file w = Some (Inr j) \<longrightarrow>
        spawn_objects env w \<noteq> Some (Inl ActorListMissing, w')"
    using run by fastforce
  have b: "\<forall>r w'. spawn_objects env w = Some (r, w') \<longrightarrow> lookups (trace w') = lookups (trace w)"
    using run by (auto simp: same_mode_def)
  have d: "truthy (spawn_sensors_only w) \<and>
      subscript actor ''type'' = Inr (VStr ''sensor.pseudo.actor_list'') \<longrightarrow>
        classify_loop [actor] [] [] False w = (Inr ([actor], [], True), w)"
    by (simp add: split_def)
  from a b d vehicles_loop_normal [OF normal] show ?thesis by blast
qed


lemma truthy_run: "spawn_objects sim truthy_node = Some (Inr (), normal_run_node)"
  by (simp add: spawn_objects_def truthy_node_def normal_run_node_def node0_def actor_list_def
      ego_def is_True_def ebind_def split_def setup_sensors_def spawn_sensor_def
      sensor_transform_def create_spawn_point_def str_def dict_remove_def call_spawn_object_def
      sim_def setup_vehicles_def spawn_vehicle_def vehicle_request_def resolve_spawn_point_def
      spawn_point_from_param_def get_param_or_None_def log_def spawn_player.simps
      player_spawned_def actor_list_request_def ego_random_request_def Let_def)

theorem sensors_only_requires_True_witness:
  "spawn_objects sim truthy_node = Some (Inr (), normal_run_node) \<and>
   lookups (trace normal_run_node) = [] \<and>
   classify_loop [actor_list] [] [] False truthy_node = (Inr ([actor_list], [], True), truthy_node)"
proof -
  have other: "spawn_sensors_only truthy_node \<noteq> VBool True"
    by (simp add: truthy_node_def node0_def)
  have t: "truthy (spawn_sensors_only truthy_node)"
    by (simp add: truthy_node_def node0_def)
  have a: "subscript actor_list ''type'' = Inr (VStr ''sensor.pseudo.actor_list'')"
    by (simp add: actor_list_def)
  have l: "lookups (trace truthy_node) = []"
    by (simp add: truthy_node_def node0_def lookups_def)
  note main = sensors_only_requires_True [OF other, where env = sim and actor = actor_list]
  from main truthy_run l have "lookups (trace normal_run_node) = []" by metis
  moreover from main t a
  have "classify_loop [actor_list] [] [] False truthy_node = (Inr ([actor_list], [], True), truthy_node)"
    by blast
  ultimately show ?thesis using truthy_run by simp
qed

end
